theory Spec2Isabelle
  imports Complex_Main "HOL-Library.Char_ord" "HOL-Library.List_Lexorder" "HOL-Library.Sublist"
begin

section \<open>Python values and exceptions\<close>

text \<open>
  JSON values as Python holds them after \<open>json.loads\<close> / \<open>request.get_json\<close>. Floats are
  modelled by the rational number they denote exactly (every finite double is a rational);
  a dict is an association list read with \<open>map_of\<close>.
\<close>

datatype json =
    JNull
  | JBool bool
  | JInt int
  | JNum rat
  | JStr string
  | JArr "json list"
  | JObj "(string \<times> json) list"

text \<open>
  The exceptions that reach the route handlers. \<open>Exception m\<close> is \<open>raise Exception(m)\<close>
  of the source; the others are raised by the interpreter or by a library and carry their
  message text.
\<close>

datatype py_exception =
    Exception string
  | KeyError string
  | TypeError string
  | IndexError string
  | RuntimeError string
  | LibraryError string

definition quoted :: "string \<Rightarrow> string" where
  "quoted s = [CHR 0x27] @ s @ [CHR 0x27]"

text \<open>\<open>str(e)\<close>: the message; for a \<open>KeyError\<close> the repr of the key.\<close>

fun str_exc :: "py_exception \<Rightarrow> string" where
  "str_exc (Exception m) = m"
| "str_exc (KeyError k) = quoted k"
| "str_exc (TypeError m) = m"
| "str_exc (IndexError m) = m"
| "str_exc (RuntimeError m) = m"
| "str_exc (LibraryError m) = m"

section \<open>Sentiment Analysis/classify.py: EmotionClassifier\<close>

definition EMOTION_LABELS :: "string list" where
  "EMOTION_LABELS =
    [''admiration'', ''amusement'', ''anger'', ''annoyance'', ''approval'', ''caring'',
     ''confusion'', ''curiosity'', ''desire'', ''disappointment'', ''disapproval'',
     ''disgust'', ''embarrassment'', ''excitement'', ''fear'', ''gratitude'', ''grief'',
     ''joy'', ''love'', ''nervousness'', ''optimism'', ''pride'', ''realization'',
     ''relief'', ''remorse'', ''sadness'', ''surprise'', ''neutral'']"

definition EMOTION_MAPPING :: "(string \<times> string) list" where
  "EMOTION_MAPPING =
    [(''joy'', ''happy''),
     (''amusement'', ''happy''),
     (''excitement'', ''excited''),
     (''optimism'', ''excited''),
     (''approval'', ''happy''),
     (''admiration'', ''happy''),
     (''gratitude'', ''happy''),
     (''love'', ''happy''),
     (''pride'', ''excited''),
     (''relief'', ''happy''),
     (''sadness'', ''sad''),
     (''grief'', ''sad''),
     (''disappointment'', ''sad''),
     (''remorse'', ''sad''),
     (''embarrassment'', ''sad''),
     (''nervousness'', ''sad''),
     (''fear'', ''sad''),
     (''anger'', ''sad''),
     (''annoyance'', ''sad''),
     (''disapproval'', ''sad''),
     (''disgust'', ''sad''),
     (''neutral'', ''neutral''),
     (''realization'', ''neutral''),
     (''confusion'', ''neutral''),
     (''curiosity'', ''neutral''),
     (''surprise'', ''excited''),
     (''desire'', ''excited''),
     (''caring'', ''happy'')]"

text \<open>\<open>self.EMOTION_MAPPING.get(emotion_label, 'neutral')\<close> (line 134).\<close>

definition simplified :: "string \<Rightarrow> string" where
  "simplified emotion_label =
     (case map_of EMOTION_MAPPING emotion_label of
        None \<Rightarrow> ''neutral''
      | Some mood \<Rightarrow> mood)"

text \<open>\<open>self.EMOTION_LABELS[idx]\<close> (line 127); the indices of \<open>topk\<close> are never negative.\<close>

definition label_at :: "nat \<Rightarrow> py_exception + string" where
  "label_at idx =
     (if idx < length EMOTION_LABELS then Inr (EMOTION_LABELS ! idx)
      else Inl (IndexError ''list index out of range''))"

text \<open>
  \<open>round(score, 4)\<close>: Python rounds the exact value of the float to four decimals, ties
  to the even neighbour. The model keeps the decimal result exactly; the final conversion
  of that decimal to the nearest double is not modelled.
\<close>

definition round4 :: "rat \<Rightarrow> rat" where
  "round4 score =
     (let y = score * 10000;
          f = \<lfloor>y\<rfloor>;
          d = y - of_int f;
          n = (if d < 1/2 then f
               else if 1/2 < d then f + 1
               else if even f then f else f + 1)
      in of_int n / 10000)"

text \<open>
  \<open>torch.topk(probs, k)\<close>: the \<open>k\<close> largest entries in descending order, each with its
  index; a \<open>k\<close> outside \<open>0..len(probs)\<close> raises. Among equal scores the lower index comes
  first here (torch leaves that order open).
\<close>

definition topk :: "rat list \<Rightarrow> int \<Rightarrow> py_exception + (rat \<times> nat) list" where
  "topk probs k =
     (if k < 0 \<or> int (length probs) < k
      then Inl (RuntimeError ''selected index k out of range'')
      else Inr (take (nat k) (sort_key (\<lambda>p. - fst p) (zip probs [0..<length probs]))))"

record raw_emotion =
  emotion :: string
  score :: rat

record 't classification =
  text_value :: 't
  raw_emotions :: "raw_emotion list"
  simplified_emotions :: "string list"
  dominant_emotion :: string
  confidence :: rat

text \<open>
  The loop of lines 125-135 over the zipped scores and indices, with the two accumulators
  \<open>raw_emotions\<close> (a list, appended to) and \<open>simplified_emotions\<close> (a set).
\<close>

fun classify_loop ::
  "rat \<Rightarrow> (rat \<times> nat) list \<Rightarrow> raw_emotion list \<Rightarrow> string set
     \<Rightarrow> py_exception + (raw_emotion list \<times> string set)" where
  "classify_loop threshold [] raw simp = Inr (raw, simp)"
| "classify_loop threshold ((sc, idx) # rest) raw simp =
     (if threshold \<le> sc then
        (case label_at idx of
           Inl e \<Rightarrow> Inl e
         | Inr emotion_label \<Rightarrow>
             classify_loop threshold rest
               (raw @ [\<lparr>emotion = emotion_label, score = round4 sc\<rparr>])
               (insert (simplified emotion_label) simp))
      else classify_loop threshold rest raw simp)"

text \<open>
  \<open>classify\<close> from line 119 on: everything after the model has produced \<open>probs\<close>.
\<close>

definition classify_from_probs ::
  "'t \<Rightarrow> rat list \<Rightarrow> int \<Rightarrow> rat \<Rightarrow> py_exception + 't classification" where
  "classify_from_probs txt probs top_k threshold =
     (case topk probs (min top_k (int (length probs))) of
        Inl e \<Rightarrow> Inl e
      | Inr scored \<Rightarrow>
          (case classify_loop threshold scored [] {} of
             Inl e \<Rightarrow> Inl e
           | Inr (raw, simp) \<Rightarrow>
               Inr \<lparr>text_value = txt,
                    raw_emotions = raw,
                    simplified_emotions = sorted_list_of_set simp,
                    dominant_emotion = (case raw of [] \<Rightarrow> ''neutral'' | r # _ \<Rightarrow> emotion r),
                    confidence = (case raw of [] \<Rightarrow> 0 | r # _ \<Rightarrow> score r)\<rparr>))"

text \<open>
  \<open>classify\<close> as a whole: tokenizer, model and softmax (lines 104-117) are the parameter
  \<open>inference\<close>, which yields the probability vector or raises.
\<close>

definition classify ::
  "('t \<Rightarrow> py_exception + rat list) \<Rightarrow> 't \<Rightarrow> int \<Rightarrow> rat \<Rightarrow> py_exception + 't classification" where
  "classify inference txt top_k threshold =
     (case inference txt of
        Inl e \<Rightarrow> Inl e
      | Inr probs \<Rightarrow> classify_from_probs txt probs top_k threshold)"

section \<open>web/backend/routes/playlist_route.py: the engine client\<close>

text \<open>
  The keyword arguments of \<open>subprocess.run\<close> at lines 41-46. With \<open>capture_output\<close> the
  child's standard output and standard error are two pipes, returned as two fields.
\<close>

record run_args =
  args :: "string list"
  capture_output :: bool
  text_mode :: bool
  timeout :: nat

text \<open>
  What \<open>subprocess.run\<close> does with the external engine: it returns a completed process
  (return code, stdout, stderr) or raises. \<open>OtherError m\<close> is any exception other than the
  two the source names, with \<open>str(e) = m\<close> (for instance \<open>PermissionError\<close>).
\<close>

datatype run_outcome =
    CompletedProcess int string string
  | TimeoutExpired
  | FileNotFoundError
  | OtherError string

text \<open>
  What \<open>json.loads\<close> does with a text: it returns the value, raises \<open>JSONDecodeError\<close>
  (with \<open>str(e) = m\<close>), or raises another exception, as \<open>RecursionError\<close> on a deeply
  nested text and \<open>ValueError\<close> on an integer with too many digits (\<open>LoadsRaises m\<close>, with
  \<open>str(e) = m\<close>).
\<close>

datatype loads_outcome =
    Parsed json
  | JSONDecodeError string
  | LoadsRaises string

text \<open>
  The world outside the routes: the two module-level paths (computed from the directory of
  the module), the process launcher, the JSON parser and the loaded classifier's model up
  to the softmax.
\<close>

record env =
  CPP_EXECUTABLE :: string
  SONGS_CSV :: string
  subprocess_run :: "run_args \<Rightarrow> run_outcome"
  json_loads :: "string \<Rightarrow> loads_outcome"
  inference :: "json \<Rightarrow> py_exception + rat list"

text \<open>
  \<open>subprocess.run\<close> over the operating system, for stating what the \<open>timeout\<close> argument
  does. The system either cannot start the program (no such file, or another error) or
  starts a process, described by its running time in seconds (\<open>None\<close>: it never exits),
  its return code and what it writes to standard output and standard error.
  \<open>subprocess.run\<close> waits for the process for at most \<open>timeout\<close> seconds; a process that
  has not exited by then is killed and \<open>TimeoutExpired\<close> is raised, whatever it would have
  written. (At exactly \<open>timeout\<close> seconds Python may go either way; here the process is
  still accepted.)
\<close>

datatype process =
    NoSuchFile
  | CannotStart string
  | Runs "rat option" int string string

definition run_with_timeout :: "(string list \<Rightarrow> process) \<Rightarrow> run_args \<Rightarrow> run_outcome" where
  "run_with_timeout system a =
     (case system (args a) of
        NoSuchFile \<Rightarrow> FileNotFoundError
      | CannotStart m \<Rightarrow> OtherError m
      | Runs None returncode out err \<Rightarrow> TimeoutExpired
      | Runs (Some seconds) returncode out err \<Rightarrow>
          if of_nat (timeout a) < seconds then TimeoutExpired
          else CompletedProcess returncode out err)"

text \<open>\<open>sep.join(xs)\<close>.\<close>

fun join :: "string \<Rightarrow> string list \<Rightarrow> string" where
  "join sep [] = []"
| "join sep [x] = x"
| "join sep (x # y # ys) = x @ sep @ join sep (y # ys)"

text \<open>The argument of \<open>subprocess.run\<close> (lines 38-46).\<close>

definition engine_call :: "env \<Rightarrow> string list \<Rightarrow> run_args" where
  "engine_call env emotions =
     (let emotions_str = join '','' emotions
      in \<lparr>args = [CPP_EXECUTABLE env, SONGS_CSV env, emotions_str],
          capture_output = True,
          text_mode = True,
          timeout = 10\<rparr>)"

text \<open>What the \<open>try\<close> block of \<open>call_cpp_engine\<close> (lines 37-53) can raise.\<close>

datatype engine_raise =
    RaisedTimeoutExpired
  | RaisedJSONDecodeError string
  | RaisedFileNotFoundError
  | RaisedException py_exception

definition call_cpp_engine_try :: "env \<Rightarrow> string list \<Rightarrow> engine_raise + json" where
  "call_cpp_engine_try env emotions =
     (case subprocess_run env (engine_call env emotions) of
        TimeoutExpired \<Rightarrow> Inl RaisedTimeoutExpired
      | FileNotFoundError \<Rightarrow> Inl RaisedFileNotFoundError
      | OtherError m \<Rightarrow> Inl (RaisedException (LibraryError m))
      | CompletedProcess returncode stdout stderr \<Rightarrow>
          if returncode \<noteq> 0
          then Inl (RaisedException (Exception (''C++ engine error: '' @ stderr)))
          else (case json_loads env stdout of
                  JSONDecodeError m \<Rightarrow> Inl (RaisedJSONDecodeError m)
                | LoadsRaises m \<Rightarrow> Inl (RaisedException (LibraryError m))
                | Parsed playlist_data \<Rightarrow> Inr playlist_data))"

text \<open>The \<open>except\<close> clauses (lines 55-62), in the order of the source.\<close>

definition call_cpp_engine :: "env \<Rightarrow> string list \<Rightarrow> py_exception + json" where
  "call_cpp_engine env emotions =
     (case call_cpp_engine_try env emotions of
        Inr playlist_data \<Rightarrow> Inr playlist_data
      | Inl RaisedTimeoutExpired \<Rightarrow> Inl (Exception ''C++ engine timeout'')
      | Inl (RaisedJSONDecodeError m) \<Rightarrow>
          Inl (Exception (''Failed to parse C++ output: '' @ m))
      | Inl RaisedFileNotFoundError \<Rightarrow>
          Inl (Exception (''C++ executable not found at '' @ CPP_EXECUTABLE env))
      | Inl (RaisedException e) \<Rightarrow>
          Inl (Exception (''C++ engine error: '' @ str_exc e)))"

section \<open>web/backend/routes: requests and responses\<close>

datatype http_method = POST | OPTIONS

text \<open>
  A request: its method and what \<open>request.get_json()\<close> gives, which is an exception, \<open>None\<close>
  or the body. The body is a JSON object; its fields are modelled one by one (\<open>None\<close>: key
  absent). An empty object has no key, so \<open>not data or 'text' not in data\<close> holds exactly
  when \<open>data\<close> is \<open>None\<close> or the key is absent. \<open>top_k\<close> and \<open>threshold\<close> have the types the
  signature of \<open>classify\<close> declares for them.
\<close>

record 'b request =
  http_method :: http_method
  get_json :: "py_exception + 'b option"

record text_body =
  text_key :: "json option"
  top_k_key :: "int option"
  threshold_key :: "rat option"

record emotions_body =
  emotions_key :: "json option"

datatype payload = Empty | Json json

type_synonym response = "payload \<times> nat"

text \<open>The two error envelopes every route builds.\<close>

definition bad_request :: "string \<Rightarrow> response" where
  "bad_request message =
     (Json (JObj [(''error'', JStr ''Bad Request''), (''message'', JStr message)]), 400)"

definition internal_server_error :: "py_exception \<Rightarrow> response" where
  "internal_server_error e =
     (Json (JObj [(''error'', JStr ''Internal Server Error''),
                  (''message'', JStr (str_exc e))]), 500)"

text \<open>
  \<open>str.isspace\<close> and \<open>str.strip()\<close>. A string is the list of its code points and a \<open>char\<close>
  is a code point below 256, so a text with a code point above 255 is not a value of the
  model. Below 256 Python counts as whitespace the codes 9 to 13, 28 to 32, 133 (next
  line) and 160 (no-break space).
\<close>

definition isspace :: "char \<Rightarrow> bool" where
  "isspace c =
     (let n = (of_char c :: nat)
      in (9 \<le> n \<and> n \<le> 13) \<or> (28 \<le> n \<and> n \<le> 32) \<or> n = 133 \<or> n = 160)"

definition strip :: "string \<Rightarrow> string" where
  "strip s = rev (dropWhile isspace (rev (dropWhile isspace s)))"

text \<open>The literal \<open>0.1\<close>: the double nearest to one tenth.\<close>

definition default_threshold :: rat where
  "default_threshold = 3602879701896397 / 36028797018963968"

text \<open>\<open>obj[key]\<close> for a string key (message texts as CPython 3.11 prints them).\<close>

fun getitem :: "json \<Rightarrow> string \<Rightarrow> py_exception + json" where
  "getitem (JObj kvs) key =
     (case map_of kvs key of None \<Rightarrow> Inl (KeyError key) | Some v \<Rightarrow> Inr v)"
| "getitem (JArr xs) key = Inl (TypeError ''list indices must be integers or slices, not str'')"
| "getitem (JStr s) key = Inl (TypeError (''string indices must be integers, not '' @ quoted ''str''))"
| "getitem (JInt n) key = Inl (TypeError (quoted ''int'' @ '' object is not subscriptable''))"
| "getitem (JNum q) key = Inl (TypeError (quoted ''float'' @ '' object is not subscriptable''))"
| "getitem (JBool b) key = Inl (TypeError (quoted ''bool'' @ '' object is not subscriptable''))"
| "getitem JNull key = Inl (TypeError (quoted ''NoneType'' @ '' object is not subscriptable''))"

text \<open>The result dictionary of \<open>classify\<close> as \<open>jsonify\<close> renders it.\<close>

definition jsonify_raw_emotion :: "raw_emotion \<Rightarrow> json" where
  "jsonify_raw_emotion r = JObj [(''emotion'', JStr (emotion r)), (''score'', JNum (score r))]"

definition classification_fields :: "'t classification \<Rightarrow> (string \<times> json) list" where
  "classification_fields c =
     [(''raw_emotions'', JArr (map jsonify_raw_emotion (raw_emotions c))),
      (''simplified_emotions'', JArr (map JStr (simplified_emotions c))),
      (''dominant_emotion'', JStr (dominant_emotion c)),
      (''confidence'', JNum (confidence c))]"

definition jsonify_classification :: "json classification \<Rightarrow> json" where
  "jsonify_classification c = JObj ((''text'', text_value c) # classification_fields c)"

section \<open>classify_route.py: classify_emotion\<close>

definition classify_emotion_try :: "env \<Rightarrow> text_body request \<Rightarrow> py_exception + response" where
  "classify_emotion_try env req =
     (case get_json req of
        Inl e \<Rightarrow> Inl e
      | Inr None \<Rightarrow> Inr (bad_request ''Missing required field: text'')
      | Inr (Some data) \<Rightarrow>
          (case text_key data of
             None \<Rightarrow> Inr (bad_request ''Missing required field: text'')
           | Some txt \<Rightarrow>
               (let top_k = (case top_k_key data of None \<Rightarrow> 3 | Some k \<Rightarrow> k);
                    threshold = (case threshold_key data of
                                   None \<Rightarrow> default_threshold | Some t \<Rightarrow> t)
                in case txt of
                     JStr s \<Rightarrow>
                       if strip s = []
                       then Inr (bad_request ''text must be a non-empty string'')
                       else (case classify (inference env) txt top_k threshold of
                               Inl e \<Rightarrow> Inl e
                             | Inr result \<Rightarrow> Inr (Json (jsonify_classification result), 200))
                   | _ \<Rightarrow> Inr (bad_request ''text must be a non-empty string''))))"

definition classify_emotion :: "env \<Rightarrow> text_body request \<Rightarrow> response" where
  "classify_emotion env req =
     (if http_method req = OPTIONS then (Empty, 204)
      else (case classify_emotion_try env req of
              Inr resp \<Rightarrow> resp
            | Inl e \<Rightarrow> internal_server_error e))"

section \<open>playlist_route.py: generate_playlist and generate_full_playlist\<close>

text \<open>
  The validation loop of lines 114-119: the strings of the list, or \<open>None\<close> at the first
  entry that is not a string or is blank.
\<close>

fun validated_emotions :: "json list \<Rightarrow> string list option" where
  "validated_emotions [] = Some []"
| "validated_emotions (JStr s # rest) =
     (if strip s = [] then None else map_option ((#) s) (validated_emotions rest))"
| "validated_emotions (_ # rest) = None"

definition generate_playlist_try :: "env \<Rightarrow> emotions_body request \<Rightarrow> py_exception + response" where
  "generate_playlist_try env req =
     (case get_json req of
        Inl e \<Rightarrow> Inl e
      | Inr None \<Rightarrow> Inr (bad_request ''Missing required field: emotions'')
      | Inr (Some data) \<Rightarrow>
          (case emotions_key data of
             None \<Rightarrow> Inr (bad_request ''Missing required field: emotions'')
           | Some (JArr items) \<Rightarrow>
               if items = [] then Inr (bad_request ''emotions must be a non-empty list'')
               else (case validated_emotions items of
                       None \<Rightarrow> Inr (bad_request ''All emotions must be non-empty strings'')
                     | Some emotions \<Rightarrow>
                         (case call_cpp_engine env emotions of
                            Inl e \<Rightarrow> Inl e
                          | Inr playlist_data \<Rightarrow>
                              (case getitem playlist_data ''songs'' of
                                 Inl e \<Rightarrow> Inl e
                               | Inr songs \<Rightarrow>
                                   (case getitem playlist_data ''count'' of
                                      Inl e \<Rightarrow> Inl e
                                    | Inr count \<Rightarrow>
                                        Inr (Json (JObj [(''emotions'', JArr items),
                                                         (''songs'', songs),
                                                         (''count'', count)]), 200)))))
           | Some _ \<Rightarrow> Inr (bad_request ''emotions must be a non-empty list'')))"

definition generate_playlist :: "env \<Rightarrow> emotions_body request \<Rightarrow> response" where
  "generate_playlist env req =
     (if http_method req = OPTIONS then (Empty, 204)
      else (case generate_playlist_try env req of
              Inr resp \<Rightarrow> resp
            | Inl e \<Rightarrow> internal_server_error e))"

text \<open>Lines 198-201: the moods handed to the engine by the full pipeline.\<close>

definition playlist_emotions :: "'t classification \<Rightarrow> string list" where
  "playlist_emotions classification =
     (let emotions = simplified_emotions classification
      in if emotions = [] then [''neutral''] else emotions)"

definition generate_full_playlist_try :: "env \<Rightarrow> text_body request \<Rightarrow> py_exception + response" where
  "generate_full_playlist_try env req =
     (case get_json req of
        Inl e \<Rightarrow> Inl e
      | Inr None \<Rightarrow> Inr (bad_request ''Missing required field: text'')
      | Inr (Some data) \<Rightarrow>
          (case text_key data of
             None \<Rightarrow> Inr (bad_request ''Missing required field: text'')
           | Some txt \<Rightarrow>
               (let top_k = (case top_k_key data of None \<Rightarrow> 3 | Some k \<Rightarrow> k);
                    threshold = (case threshold_key data of
                                   None \<Rightarrow> default_threshold | Some t \<Rightarrow> t)
                in case classify (inference env) txt top_k threshold of
                     Inl e \<Rightarrow> Inl e
                   | Inr classification \<Rightarrow>
                       (let emotions = playlist_emotions classification
                        in case call_cpp_engine env emotions of
                             Inl e \<Rightarrow> Inl e
                           | Inr playlist_data \<Rightarrow>
                               (case getitem playlist_data ''songs'' of
                                  Inl e \<Rightarrow> Inl e
                                | Inr songs \<Rightarrow>
                                    (case getitem playlist_data ''count'' of
                                       Inl e \<Rightarrow> Inl e
                                     | Inr count \<Rightarrow>
                                         Inr (Json (JObj
                                           [(''text'', txt),
                                            (''classification'',
                                               JObj (classification_fields classification)),
                                            (''playlist'',
                                               JObj [(''emotions'', JArr (map JStr emotions)),
                                                     (''songs'', songs),
                                                     (''count'', count)])]), 200)))))))"

definition generate_full_playlist :: "env \<Rightarrow> text_body request \<Rightarrow> response" where
  "generate_full_playlist env req =
     (if http_method req = OPTIONS then (Empty, 204)
      else (case generate_full_playlist_try env req of
              Inr resp \<Rightarrow> resp
            | Inl e \<Rightarrow> internal_server_error e))"

section \<open>Sample environments\<close>

text \<open>
  Concrete environments for evaluating the routes: an installation under \<open>/srv/app\<close>, an
  engine with a fixed outcome, \<open>json.loads\<close> on the outputs used below, and a model
  whose softmax is a fixed vector over the 28 labels.
\<close>

definition stdout_one_song :: string where
  \<open>stdout_one_song = ''{"songs": [{"id": 1}], "count": 1}''\<close>

definition stdout_miscounted :: string where
  \<open>stdout_miscounted = ''{"songs": [], "count": 5}''\<close>

definition sample_loads :: "string \<Rightarrow> loads_outcome" where
  "sample_loads s =
     (if s = stdout_one_song
      then Parsed (JObj [(''songs'', JArr [JObj [(''id'', JInt 1)]]), (''count'', JInt 1)])
      else if s = stdout_miscounted
      then Parsed (JObj [(''songs'', JArr []), (''count'', JInt 5)])
      else JSONDecodeError ''Expecting value: line 1 column 1 (char 0)'')"

definition sample_probs :: "rat list" where
  "sample_probs = 82/100 # 15/100 # 3/100 # replicate 25 0"

definition sample_env :: "run_outcome \<Rightarrow> (json \<Rightarrow> py_exception + rat list) \<Rightarrow> env" where
  "sample_env outcome infer =
     \<lparr>CPP_EXECUTABLE = ''/srv/app/web/backend/routes/../../../cpp/build/emotion_playlist.exe'',
      SONGS_CSV = ''/srv/app/web/backend/routes/../../../data/songs.csv'',
      subprocess_run = (\<lambda>a. outcome),
      json_loads = sample_loads,
      inference = infer\<rparr>"

section \<open>Properties of the aggregation\<close>

subsection \<open>The loop and the top-k selection\<close>

lemma classify_loop_result:
  "classify_loop th xs raw simp = Inr (raw', simp') \<Longrightarrow>
     raw' = raw @ map (\<lambda>p. \<lparr>emotion = EMOTION_LABELS ! snd p, score = round4 (fst p)\<rparr>)
                     (filter (\<lambda>p. th \<le> fst p) xs)
   \<and> simp' = simp \<union> (\<lambda>p. simplified (EMOTION_LABELS ! snd p)) ` set (filter (\<lambda>p. th \<le> fst p) xs)"
proof (induction th xs raw simp rule: classify_loop.induct)
  case (1 threshold raw simp)
  then show ?case by simp
next
  case (2 threshold sc idx rest raw simp)
  show ?case
  proof (cases "threshold \<le> sc")
    case False
    with 2 show ?thesis by simp
  next
    case True
    show ?thesis
    proof (cases "idx < length EMOTION_LABELS")
      case False
      with True 2(3) show ?thesis by (simp add: label_at_def)
    next
      case lt: True
      then have l: "label_at idx = Inr (EMOTION_LABELS ! idx)" by (simp add: label_at_def)
      from 2(3) True l have
        "classify_loop threshold rest
           (raw @ [\<lparr>emotion = EMOTION_LABELS ! idx, score = round4 sc\<rparr>])
           (insert (simplified (EMOTION_LABELS ! idx)) simp) = Inr (raw', simp')"
        by simp
      from 2(1)[OF True l this] True show ?thesis by auto
    qed
  qed
qed

lemma classify_loop_total:
  "\<forall>p\<in>set xs. snd p < length EMOTION_LABELS \<Longrightarrow> \<exists>r. classify_loop th xs raw simp = Inr r"
  by (induction th xs raw simp rule: classify_loop.induct) (auto simp: label_at_def)

lemma topk_Inr:
  "0 \<le> top_k \<Longrightarrow>
   topk probs (min top_k (int (length probs))) =
     Inr (take (nat top_k) (sort_key (\<lambda>p. - fst p) (zip probs [0..<length probs])))"
  by (auto simp: topk_def min_def)

lemma topk_Inl:
  "top_k < 0 \<Longrightarrow>
   topk probs (min top_k (int (length probs))) = Inl (RuntimeError ''selected index k out of range'')"
  by (auto simp: topk_def min_def)

lemma topk_index_bound:
  assumes "p \<in> set (take k (sort_key f (zip probs [0..<length probs])))"
  shows "snd p < length probs \<and> fst p \<in> set probs"
proof -
  from assms have "p \<in> set (sort_key f (zip probs [0..<length probs]))"
    by (rule in_set_takeD)
  then have "(fst p, snd p) \<in> set (zip probs [0..<length probs])"
    by simp
  then have "fst p \<in> set probs" and "snd p \<in> set [0..<length probs]"
    by (rule set_zip_leftD, rule set_zip_rightD)
  then show ?thesis by simp
qed

lemma classify_from_probs_Inr:
  assumes "classify_from_probs txt probs top_k threshold = Inr r"
  obtains kept where
    "0 \<le> top_k"
    "kept = filter (\<lambda>p. threshold \<le> fst p)
              (take (nat top_k) (sort_key (\<lambda>p. - fst p) (zip probs [0..<length probs])))"
    "raw_emotions r =
       map (\<lambda>p. \<lparr>emotion = EMOTION_LABELS ! snd p, score = round4 (fst p)\<rparr>) kept"
    "simplified_emotions r =
       sorted_list_of_set ((\<lambda>p. simplified (EMOTION_LABELS ! snd p)) ` set kept)"
    "dominant_emotion r = (case raw_emotions r of [] \<Rightarrow> ''neutral'' | e # _ \<Rightarrow> emotion e)"
    "confidence r = (case raw_emotions r of [] \<Rightarrow> 0 | e # _ \<Rightarrow> score e)"
    "text_value r = txt"
proof -
  have k: "0 \<le> top_k"
  proof (rule ccontr)
    assume "\<not> 0 \<le> top_k"
    then have "top_k < 0" by simp
    from topk_Inl[OF this, of probs] assms show False
      by (simp add: classify_from_probs_def)
  qed
  let ?sel = "take (nat top_k) (sort_key (\<lambda>p. - fst p) (zip probs [0..<length probs]))"
  from assms topk_Inr[OF k, of probs]
  obtain raw simp where
    loop: "classify_loop threshold ?sel [] {} = Inr (raw, simp)" and
    r: "r = \<lparr>text_value = txt, raw_emotions = raw,
              simplified_emotions = sorted_list_of_set simp,
              dominant_emotion = (case raw of [] \<Rightarrow> ''neutral'' | e # _ \<Rightarrow> emotion e),
              confidence = (case raw of [] \<Rightarrow> 0 | e # _ \<Rightarrow> score e)\<rparr>"
    by (auto simp: classify_from_probs_def split: sum.splits)
  from classify_loop_result[OF loop] r that[OF k refl] show thesis
    by simp
qed

lemma classify_from_probs_total:
  assumes "0 \<le> top_k" and "length probs \<le> length EMOTION_LABELS"
  shows "\<exists>r. classify_from_probs txt probs top_k threshold = Inr r"
proof -
  let ?sel = "take (nat top_k) (sort_key (\<lambda>p. - fst p) (zip probs [0..<length probs]))"
  have "\<forall>p\<in>set ?sel. snd p < length EMOTION_LABELS"
    using topk_index_bound[of _ "nat top_k" "\<lambda>p. - fst p" probs] assms(2) by fastforce
  from classify_loop_total[OF this, of threshold "[]" "{}"]
  obtain res where "classify_loop threshold ?sel [] {} = Inr res" ..
  then show ?thesis
    by (cases res) (simp add: classify_from_probs_def topk_Inr[OF assms(1)])
qed

lemma kept_length:
  "length (filter P (take k (sort_key f (zip probs [0..<length probs])))) \<le> min k (length probs)"
proof -
  have "length (filter P (take k (sort_key f (zip probs [0..<length probs]))))
          \<le> length (take k (sort_key f (zip probs [0..<length probs])))"
    by (rule length_filter_le)
  then show ?thesis by simp
qed

lemma classify_from_probs_zero:
  "classify_from_probs txt probs 0 threshold =
     Inr \<lparr>text_value = txt, raw_emotions = [], simplified_emotions = [],
          dominant_emotion = ''neutral'', confidence = 0\<rparr>"
  by (simp add: classify_from_probs_def topk_def)

lemma classify_from_probs_negative:
  "top_k < 0 \<Longrightarrow>
   classify_from_probs txt probs top_k threshold =
     Inl (RuntimeError ''selected index k out of range'')"
  by (simp add: classify_from_probs_def topk_def)

subsection \<open>Rounding to four decimals\<close>

lemma round4_error: "\<bar>round4 s - s\<bar> \<le> 1 / 20000"
proof -
  define y where "y = s * 10000"
  define f where "f = \<lfloor>y\<rfloor>"
  define d where "d = y - of_int f"
  define n where "n = (if d < 1/2 then f else if 1/2 < d then f + 1
                       else if even f then f else f + 1)"
  have d: "0 \<le> d" "d < 1" unfolding d_def f_def by linarith+
  have y: "y = of_int f + d" by (simp add: d_def)
  have r: "round4 s = of_int n / 10000"
    unfolding round4_def Let_def y_def[symmetric] f_def[symmetric] d_def[symmetric] n_def ..
  have "\<bar>of_int n - y\<bar> \<le> 1 / 2"
    unfolding y n_def using d by (auto simp: abs_if)
  then have "\<bar>(of_int n - y) / 10000\<bar> \<le> 1 / 20000"
    by (simp add: abs_divide)
  moreover have "round4 s - s = (of_int n - y) / 10000"
    unfolding r y_def by (simp add: diff_divide_distrib)
  ultimately show ?thesis by (simp only:)
qed

subsection \<open>The mood table\<close>

lemma EMOTION_MAPPING_distinct: "distinct (map fst EMOTION_MAPPING)"
  by (simp add: EMOTION_MAPPING_def)

lemma EMOTION_MAPPING_range:
  "(k, m) \<in> set EMOTION_MAPPING \<Longrightarrow> m \<in> {''happy'', ''sad'', ''excited'', ''neutral''}"
  by (auto simp: EMOTION_MAPPING_def)

lemma simplified_range: "simplified l \<in> {''happy'', ''sad'', ''excited'', ''neutral''}"
proof (cases "map_of EMOTION_MAPPING l")
  case None
  then show ?thesis by (simp add: simplified_def)
next
  case (Some m)
  then have "(l, m) \<in> set EMOTION_MAPPING" by (rule map_of_SomeD)
  from EMOTION_MAPPING_range[OF this] Some show ?thesis by (simp add: simplified_def)
qed

text \<open>
  C9. The mood of a label is read from the one table \<open>EMOTION_MAPPING\<close>: every label gets
  exactly one mood of the closed set, a label that is a key of the table gets the mood the
  table lists for it, a label outside the table gets \<open>neutral\<close>, and the keys of the table
  are exactly the 28 labels of the vocabulary. (Being a HOL function, \<open>simplified\<close> is total
  and yields the same mood for the same label.)
\<close>

theorem mood_taxonomy_total:
  "simplified l \<in> {''happy'', ''sad'', ''excited'', ''neutral''}
   \<and> (l \<notin> fst ` set EMOTION_MAPPING \<longrightarrow> simplified l = ''neutral'')
   \<and> (\<forall>m. (l, m) \<in> set EMOTION_MAPPING \<longrightarrow> simplified l = m)
   \<and> set EMOTION_LABELS = fst ` set EMOTION_MAPPING"
proof (intro conjI allI impI)
  show "simplified l \<in> {''happy'', ''sad'', ''excited'', ''neutral''}" by (rule simplified_range)
  show "simplified l = ''neutral''" if "l \<notin> fst ` set EMOTION_MAPPING"
    using that by (simp add: simplified_def map_of_eq_None_iff[THEN iffD2])
  show "simplified l = m" if "(l, m) \<in> set EMOTION_MAPPING" for m
    using that EMOTION_MAPPING_distinct by (simp add: simplified_def)
  show "set EMOTION_LABELS = fst ` set EMOTION_MAPPING"
    by code_simp
qed

theorem mood_taxonomy_total_witness:
  "''telepathy'' \<notin> fst ` set EMOTION_MAPPING \<and> simplified ''telepathy'' = ''neutral''
   \<and> (''pride'', ''excited'') \<in> set EMOTION_MAPPING \<and> simplified ''pride'' = ''excited''"
proof -
  have a: "''telepathy'' \<notin> fst ` set EMOTION_MAPPING" by (simp add: EMOTION_MAPPING_def)
  have b: "(''pride'', ''excited'') \<in> set EMOTION_MAPPING" by (simp add: EMOTION_MAPPING_def)
  from a b mood_taxonomy_total[of "''telepathy''"] mood_taxonomy_total[of "''pride''"]
  show ?thesis by blast
qed

subsection \<open>The retained labels\<close>

text \<open>
  C1, as the code has it. For a positive \<open>top_k\<close>, \<open>classify\<close> returns a result whenever the
  distribution is no longer than the label vocabulary, and every result has at most
  \<open>min(top_k, len(probs))\<close> retained entries; each retained entry stores the four-decimal
  rounding of a raw score of the distribution that is at least \<open>threshold\<close> (so the stored
  score is at least \<open>threshold - 0.00005\<close>); and a threshold above every score leaves no
  entry.
\<close>

theorem top_labels_bounded_raw_score_above_threshold:
  assumes "0 < top_k"
  shows "(length probs \<le> length EMOTION_LABELS \<longrightarrow>
            (\<exists>r. classify_from_probs txt probs top_k threshold = Inr r))
       \<and> (\<forall>r. classify_from_probs txt probs top_k threshold = Inr r \<longrightarrow>
            length (raw_emotions r) \<le> min (nat top_k) (length probs)
          \<and> (\<forall>e\<in>set (raw_emotions r).
                (\<exists>s\<in>set probs. threshold \<le> s \<and> score e = round4 s)
                \<and> threshold - 1 / 20000 \<le> score e)
          \<and> ((\<forall>s\<in>set probs. s < threshold) \<longrightarrow> raw_emotions r = []))"
proof (intro conjI impI allI)
  assume "length probs \<le> length EMOTION_LABELS"
  with assms show "\<exists>r. classify_from_probs txt probs top_k threshold = Inr r"
    by (intro classify_from_probs_total) simp_all
next
  fix r assume "classify_from_probs txt probs top_k threshold = Inr r"
  then obtain kept where
    kept: "kept = filter (\<lambda>p. threshold \<le> fst p)
              (take (nat top_k) (sort_key (\<lambda>p. - fst p) (zip probs [0..<length probs])))"
    and raw: "raw_emotions r =
       map (\<lambda>p. \<lparr>emotion = EMOTION_LABELS ! snd p, score = round4 (fst p)\<rparr>) kept"
    by (rule classify_from_probs_Inr)
  show "length (raw_emotions r) \<le> min (nat top_k) (length probs)"
    unfolding raw kept by (simp only: length_map kept_length)
  have in_kept: "threshold \<le> fst p \<and> fst p \<in> set probs" if "p \<in> set kept" for p
    using that topk_index_bound[of p "nat top_k" "\<lambda>p. - fst p" probs] by (simp add: kept)
  show "\<forall>e\<in>set (raw_emotions r).
          (\<exists>s\<in>set probs. threshold \<le> s \<and> score e = round4 s) \<and> threshold - 1 / 20000 \<le> score e"
  proof
    fix e assume "e \<in> set (raw_emotions r)"
    then obtain p where p: "p \<in> set kept" and e: "score e = round4 (fst p)"
      by (auto simp: raw)
    from in_kept[OF p] have s: "threshold \<le> fst p" "fst p \<in> set probs" by simp_all
    from round4_error[of "fst p"] have "fst p - 1 / 20000 \<le> round4 (fst p)"
      by linarith
    with s e show "(\<exists>s\<in>set probs. threshold \<le> s \<and> score e = round4 s)
                    \<and> threshold - 1 / 20000 \<le> score e"
      by auto
  qed
  show "raw_emotions r = []" if "\<forall>s\<in>set probs. s < threshold"
  proof -
    have "kept = []"
    proof (rule ccontr)
      assume "kept \<noteq> []"
      then obtain p where "p \<in> set kept" by (cases kept) auto
      from in_kept[OF this] that show False by fastforce
    qed
    then show ?thesis by (simp add: raw)
  qed
qed

theorem top_labels_bounded_raw_score_above_threshold_witness:
  "0 < (3::int)
   \<and> length [82/100, 15/100, 3/100 :: rat] \<le> length EMOTION_LABELS
   \<and> classify_from_probs ''I got the job'' [82/100, 15/100, 3/100] 3 (1/10) =
       Inr \<lparr>text_value = ''I got the job'',
            raw_emotions = [\<lparr>emotion = ''admiration'', score = 41/50\<rparr>,
                            \<lparr>emotion = ''amusement'', score = 3/20\<rparr>],
            simplified_emotions = [''happy''],
            dominant_emotion = ''admiration'', confidence = 41/50\<rparr>
   \<and> length [\<lparr>emotion = ''admiration'', score = 41/50\<rparr>,
               \<lparr>emotion = ''amusement'', score = 3/20 :: rat\<rparr>] \<le> min (nat 3) (length [82/100, 15/100, 3/100 :: rat])
   \<and> (82/100 :: rat) < 9/10 \<and> (15/100 :: rat) < 9/10 \<and> (3/100 :: rat) < 9/10
   \<and> (\<exists>r. classify_from_probs ''I got the job'' [82/100, 15/100, 3/100] 3 (9/10) = Inr r
           \<and> raw_emotions r = [])"
proof -
  let ?P = "[82/100, 15/100, 3/100 :: rat]"
  let ?R = "\<lparr>text_value = ''I got the job'',
            raw_emotions = [\<lparr>emotion = ''admiration'', score = 41/50\<rparr>,
                            \<lparr>emotion = ''amusement'', score = 3/20\<rparr>],
            simplified_emotions = [''happy''],
            dominant_emotion = ''admiration'', confidence = 41/50\<rparr>"
  have k: "0 < (3::int)" by simp
  have n: "length ?P \<le> length EMOTION_LABELS" by (simp add: EMOTION_LABELS_def)
  have a: "classify_from_probs ''I got the job'' ?P 3 (1/10) = Inr ?R" by code_simp
  have b: "\<forall>s\<in>set ?P. s < 9/10" by simp
  note t1 = top_labels_bounded_raw_score_above_threshold[OF k, of ?P "''I got the job''" "1/10"]
  note t2 = top_labels_bounded_raw_score_above_threshold[OF k, of ?P "''I got the job''" "9/10"]
  from t1 a have "length (raw_emotions ?R) \<le> min (nat 3) (length ?P)" by blast
  moreover from t2 n b
  have "\<exists>r. classify_from_probs ''I got the job'' ?P 3 (9/10) = Inr r \<and> raw_emotions r = []"
    by blast
  ultimately show ?thesis using k n a b by simp
qed

text \<open>
  C1 as stated asks for every entry of the returned sequence to have a score of at least
  \<open>threshold\<close>. With the raw scores \<open>0.8749847412109375\<close> and \<open>0.1250152587890625\<close> and the
  threshold \<open>0.12500762939453125\<close> both entries are retained, and the second is returned
  with the score \<open>0.125\<close>, which is below the threshold.
\<close>

theorem stored_score_below_threshold_counterexample:
  "classify_from_probs ''fine'' (57343/65536 # 8193/65536 # replicate 26 0) 3 (16385/131072) =
     Inr \<lparr>text_value = ''fine'',
          raw_emotions = [\<lparr>emotion = ''admiration'', score = 7/8\<rparr>,
                          \<lparr>emotion = ''amusement'', score = 1/8\<rparr>],
          simplified_emotions = [''happy''],
          dominant_emotion = ''admiration'', confidence = 7/8\<rparr>
   \<and> score \<lparr>emotion = ''amusement'', score = 1/8\<rparr> < 16385/131072
   \<and> (16385/131072 :: rat) \<le> 8193/65536"
proof -
  have "classify_from_probs ''fine'' (57343/65536 # 8193/65536 # replicate 26 0) 3 (16385/131072) =
     Inr \<lparr>text_value = ''fine'',
          raw_emotions = [\<lparr>emotion = ''admiration'', score = 7/8\<rparr>,
                          \<lparr>emotion = ''amusement'', score = 1/8\<rparr>],
          simplified_emotions = [''happy''],
          dominant_emotion = ''admiration'', confidence = 7/8\<rparr>"
    by code_simp
  then show ?thesis by simp
qed

text \<open>
  C2. In every result of \<open>classify\<close>, when \<open>raw_emotions\<close> is non-empty the dominant emotion
  and the confidence are the label and the score of its first entry, and when it is empty
  they are \<open>neutral\<close> and \<open>0.0\<close>; a result exists for every non-negative \<open>top_k\<close> and
  every distribution no longer than the vocabulary.
\<close>

theorem dominant_and_confidence_follow_first_retained:
  "(\<forall>r. classify_from_probs txt probs top_k threshold = Inr r \<longrightarrow>
      (case raw_emotions r of
         [] \<Rightarrow> dominant_emotion r = ''neutral'' \<and> confidence r = 0
       | e # _ \<Rightarrow> dominant_emotion r = emotion e \<and> confidence r = score e))
   \<and> (0 \<le> top_k \<and> length probs \<le> length EMOTION_LABELS \<longrightarrow>
        (\<exists>r. classify_from_probs txt probs top_k threshold = Inr r))"
proof (intro conjI impI allI)
  fix r assume "classify_from_probs txt probs top_k threshold = Inr r"
  then have "dominant_emotion r = (case raw_emotions r of [] \<Rightarrow> ''neutral'' | e # _ \<Rightarrow> emotion e)"
    and "confidence r = (case raw_emotions r of [] \<Rightarrow> 0 | e # _ \<Rightarrow> score e)"
    by (auto elim: classify_from_probs_Inr)
  then show "case raw_emotions r of
         [] \<Rightarrow> dominant_emotion r = ''neutral'' \<and> confidence r = 0
       | e # _ \<Rightarrow> dominant_emotion r = emotion e \<and> confidence r = score e"
    by (simp split: list.splits)
next
  assume "0 \<le> top_k \<and> length probs \<le> length EMOTION_LABELS"
  then show "\<exists>r. classify_from_probs txt probs top_k threshold = Inr r"
    by (simp add: classify_from_probs_total)
qed

theorem dominant_and_confidence_follow_first_retained_witness:
  "classify_from_probs ''I got the job'' [82/100, 15/100, 3/100] 3 (1/10) =
       Inr \<lparr>text_value = ''I got the job'',
            raw_emotions = [\<lparr>emotion = ''admiration'', score = 41/50\<rparr>,
                            \<lparr>emotion = ''amusement'', score = 3/20\<rparr>],
            simplified_emotions = [''happy''],
            dominant_emotion = ''admiration'', confidence = 41/50\<rparr>
   \<and> classify_from_probs ''meh'' [82/100, 15/100, 3/100] 3 (9/10) =
       Inr \<lparr>text_value = ''meh'', raw_emotions = [], simplified_emotions = [],
            dominant_emotion = ''neutral'', confidence = 0\<rparr>
   \<and> (0 \<le> (3::int) \<and> length [82/100, 15/100, 3/100 :: rat] \<le> length EMOTION_LABELS)
   \<and> (\<exists>r. classify_from_probs ''meh'' [82/100, 15/100, 3/100] 3 (9/10) = Inr r
           \<and> dominant_emotion r = ''neutral'' \<and> confidence r = 0)"
proof -
  let ?P = "[82/100, 15/100, 3/100 :: rat]"
  have a: "classify_from_probs ''I got the job'' ?P 3 (1/10) =
       Inr \<lparr>text_value = ''I got the job'',
            raw_emotions = [\<lparr>emotion = ''admiration'', score = 41/50\<rparr>,
                            \<lparr>emotion = ''amusement'', score = 3/20\<rparr>],
            simplified_emotions = [''happy''],
            dominant_emotion = ''admiration'', confidence = 41/50\<rparr>" by code_simp
  have b: "classify_from_probs ''meh'' ?P 3 (9/10) =
       Inr \<lparr>text_value = ''meh'', raw_emotions = [], simplified_emotions = [],
            dominant_emotion = ''neutral'', confidence = 0\<rparr>" by code_simp
  have n: "0 \<le> (3::int) \<and> length ?P \<le> length EMOTION_LABELS" by (simp add: EMOTION_LABELS_def)
  from dominant_and_confidence_follow_first_retained[of "''meh''" ?P 3 "9/10"] n b
  have "\<exists>r. classify_from_probs ''meh'' ?P 3 (9/10) = Inr r
           \<and> dominant_emotion r = ''neutral'' \<and> confidence r = 0"
    by simp
  with a b n show ?thesis by blast
qed

text \<open>
  C10. The threshold test reads the raw score, and the result stores the four-decimal
  rounding: the stored scores are the roundings of raw scores of the distribution that
  are at least \<open>threshold\<close>, the confidence is the first of them (or \<open>0.0\<close>), and all of
  them are multiples of \<open>0.0001\<close>. The raw scores \<open>0.8749847412109375\<close> and
  \<open>0.1250152587890625\<close> pass the threshold \<open>0.1\<close> and are reported as \<open>0.875\<close> and
  \<open>0.125\<close>.
\<close>

theorem threshold_tests_raw_score_result_stores_rounded:
  "(\<forall>r. classify_from_probs txt probs top_k threshold = Inr r \<longrightarrow>
      (\<exists>kept. set kept \<subseteq> set (zip probs [0..<length probs])
            \<and> (\<forall>p\<in>set kept. threshold \<le> fst p)
            \<and> map score (raw_emotions r) = map (\<lambda>p. round4 (fst p)) kept
            \<and> confidence r = (case kept of [] \<Rightarrow> 0 | p # _ \<Rightarrow> round4 (fst p)))
      \<and> (\<forall>e\<in>set (raw_emotions r). \<exists>n::int. score e = of_int n / 10000)
      \<and> (\<exists>n::int. confidence r = of_int n / 10000))
   \<and> (\<exists>r. classify_from_probs ''fine'' [57343/65536, 8193/65536] 3 (1/10) = Inr r
         \<and> map score (raw_emotions r) = [7/8, 1/8]
         \<and> confidence r = 7/8
         \<and> (1/10 :: rat) \<le> 57343/65536 \<and> (57343/65536 :: rat) \<noteq> 7/8
         \<and> (1/10 :: rat) \<le> 8193/65536 \<and> (8193/65536 :: rat) \<noteq> 1/8)"
proof (intro conjI allI impI)
  fix r assume "classify_from_probs txt probs top_k threshold = Inr r"
  then obtain kept where
    kept: "kept = filter (\<lambda>p. threshold \<le> fst p)
              (take (nat top_k) (sort_key (\<lambda>p. - fst p) (zip probs [0..<length probs])))"
    and raw: "raw_emotions r =
       map (\<lambda>p. \<lparr>emotion = EMOTION_LABELS ! snd p, score = round4 (fst p)\<rparr>) kept"
    and conf: "confidence r = (case raw_emotions r of [] \<Rightarrow> 0 | e # _ \<Rightarrow> score e)"
    by (rule classify_from_probs_Inr)
  have sub: "set kept \<subseteq> set (zip probs [0..<length probs])"
  proof
    fix p assume "p \<in> set kept"
    then have "p \<in> set (take (nat top_k) (sort_key (\<lambda>p. - fst p) (zip probs [0..<length probs])))"
      by (simp add: kept)
    then have "p \<in> set (sort_key (\<lambda>p. - fst p) (zip probs [0..<length probs]))"
      by (rule in_set_takeD)
    then show "p \<in> set (zip probs [0..<length probs])" by simp
  qed
  have th: "\<forall>p\<in>set kept. threshold \<le> fst p" by (simp add: kept)
  have sc: "map score (raw_emotions r) = map (\<lambda>p. round4 (fst p)) kept"
    by (simp add: raw comp_def)
  have cf: "confidence r = (case kept of [] \<Rightarrow> 0 | p # _ \<Rightarrow> round4 (fst p))"
    by (simp add: conf raw split: list.splits)
  from sub th sc cf
  show "\<exists>kept. set kept \<subseteq> set (zip probs [0..<length probs])
            \<and> (\<forall>p\<in>set kept. threshold \<le> fst p)
            \<and> map score (raw_emotions r) = map (\<lambda>p. round4 (fst p)) kept
            \<and> confidence r = (case kept of [] \<Rightarrow> 0 | p # _ \<Rightarrow> round4 (fst p))"
    by blast
  have grid: "\<exists>n::int. round4 s = of_int n / 10000" for s
    unfolding round4_def Let_def by blast
  show "\<forall>e\<in>set (raw_emotions r). \<exists>n::int. score e = of_int n / 10000"
    using grid by (auto simp: raw)
  show "\<exists>n::int. confidence r = of_int n / 10000"
  proof (cases kept)
    case Nil
    then show ?thesis by (simp add: cf)
  next
    case (Cons p ps)
    then show ?thesis using grid[of "fst p"] by (simp add: cf)
  qed
next
  have "classify_from_probs ''fine'' [57343/65536, 8193/65536] 3 (1/10) =
     Inr \<lparr>text_value = ''fine'',
          raw_emotions = [\<lparr>emotion = ''admiration'', score = 7/8\<rparr>,
                          \<lparr>emotion = ''amusement'', score = 1/8\<rparr>],
          simplified_emotions = [''happy''],
          dominant_emotion = ''admiration'', confidence = 7/8\<rparr>"
    by code_simp
  then show "\<exists>r. classify_from_probs ''fine'' [57343/65536, 8193/65536] 3 (1/10) = Inr r
         \<and> map score (raw_emotions r) = [7/8, 1/8]
         \<and> confidence r = 7/8
         \<and> (1/10 :: rat) \<le> 57343/65536 \<and> (57343/65536 :: rat) \<noteq> 7/8
         \<and> (1/10 :: rat) \<le> 8193/65536 \<and> (8193/65536 :: rat) \<noteq> 1/8"
    by simp
qed

theorem threshold_tests_raw_score_result_stores_rounded_witness:
  "classify_from_probs ''so so'' [3/16, 13/16] 1 (1/2) =
     Inr \<lparr>text_value = ''so so'',
          raw_emotions = [\<lparr>emotion = ''amusement'', score = 13/16\<rparr>],
          simplified_emotions = [''happy''],
          dominant_emotion = ''amusement'', confidence = 13/16\<rparr>
   \<and> (\<exists>n::int. (13/16 :: rat) = of_int n / 10000)"
proof -
  let ?R = "\<lparr>text_value = ''so so'',
          raw_emotions = [\<lparr>emotion = ''amusement'', score = 13/16\<rparr>],
          simplified_emotions = [''happy''],
          dominant_emotion = ''amusement'', confidence = 13/16\<rparr>"
  have a: "classify_from_probs ''so so'' [3/16, 13/16] 1 (1/2) = Inr ?R" by code_simp
  from threshold_tests_raw_score_result_stores_rounded[of "''so so''" "[3/16, 13/16]" 1 "1/2"] a
  have "\<exists>n::int. confidence ?R = of_int n / 10000" by blast
  with a show ?thesis by simp
qed

section \<open>Properties of the engine client\<close>

lemma sample_loads_simps:
  "sample_loads stdout_one_song =
     Parsed (JObj [(''songs'', JArr [JObj [(''id'', JInt 1)]]), (''count'', JInt 1)])"
  "sample_loads stdout_miscounted = Parsed (JObj [(''songs'', JArr []), (''count'', JInt 5)])"
  "sample_loads ''no songs found'' = JSONDecodeError ''Expecting value: line 1 column 1 (char 0)''"
  by (simp_all add: sample_loads_def stdout_one_song_def stdout_miscounted_def)

lemma sample_env_simps:
  "CPP_EXECUTABLE (sample_env outcome infer) =
     ''/srv/app/web/backend/routes/../../../cpp/build/emotion_playlist.exe''"
  "SONGS_CSV (sample_env outcome infer) = ''/srv/app/web/backend/routes/../../../data/songs.csv''"
  "subprocess_run (sample_env outcome infer) a = outcome"
  "json_loads (sample_env outcome infer) = sample_loads"
  "inference (sample_env outcome infer) = infer"
  by (simp_all add: sample_env_def)

lemma engine_call_run_irrelevant [simp]:
  "engine_call (env\<lparr>subprocess_run := run'\<rparr>) emotions = engine_call env emotions"
  by (simp add: engine_call_def)

lemma call_cpp_engine_cases:
  "call_cpp_engine env emotions =
     (case subprocess_run env (engine_call env emotions) of
        CompletedProcess returncode stdout stderr \<Rightarrow>
          if returncode \<noteq> 0
          then Inl (Exception (''C++ engine error: '' @ ''C++ engine error: '' @ stderr))
          else (case json_loads env stdout of
                  Parsed playlist_data \<Rightarrow> Inr playlist_data
                | JSONDecodeError m \<Rightarrow> Inl (Exception (''Failed to parse C++ output: '' @ m))
                | LoadsRaises m \<Rightarrow> Inl (Exception (''C++ engine error: '' @ m)))
      | TimeoutExpired \<Rightarrow> Inl (Exception ''C++ engine timeout'')
      | FileNotFoundError \<Rightarrow>
          Inl (Exception (''C++ executable not found at '' @ CPP_EXECUTABLE env))
      | OtherError m \<Rightarrow> Inl (Exception (''C++ engine error: '' @ m)))"
  by (simp add: call_cpp_engine_def call_cpp_engine_try_def
        split: run_outcome.splits loads_outcome.splits)

lemma call_cpp_engine_cong:
  assumes "run' (engine_call env emotions) = subprocess_run env (engine_call env emotions)"
  shows "call_cpp_engine (env\<lparr>subprocess_run := run'\<rparr>) emotions = call_cpp_engine env emotions"
  using assms by (simp add: call_cpp_engine_cases split: run_outcome.splits loads_outcome.splits)

lemma join_length:
  "length (join sep xs) = sum_list (map length xs) + (length xs - 1) * length sep"
  by (induction sep xs rule: join.induct) simp_all

lemma join_prefix: "xs \<noteq> [] \<Longrightarrow> prefix (hd xs) (join sep xs)"
  by (induction sep xs rule: join.induct) simp_all

lemma join_suffix: "xs \<noteq> [] \<Longrightarrow> suffix (last xs) (join sep xs)"
  by (induction sep xs rule: join.induct) (simp_all add: suffix_appendI)

lemma join_formula:
  "join sep xs = (case xs of [] \<Rightarrow> [] | m # ms \<Rightarrow> m @ concat (map ((@) sep) ms))"
  by (induction sep xs rule: join.induct) simp_all

lemma join_count:
  "count_list (join [c] xs) c = sum_list (map (\<lambda>m. count_list m c) xs) + (length xs - 1)"
  by (induction "[c]" xs rule: join.induct) simp_all

text \<open>
  C5, as the code has it. The client starts the process with the argument list
  \<open>[executable, catalog path, joined moods]\<close>, that is with exactly two arguments after the
  executable, with \<open>capture_output\<close> set, so that standard output and standard error come
  back as two separate texts, and with the timeout 10: what the launcher does at this one
  call decides the client's result, and nothing the launcher does elsewhere matters. For
  every mood list the joined string is the first mood followed by a comma and the next
  mood for each further one: its length is the moods' lengths plus one per pair of
  neighbours, it has the moods' own commas plus one per pair of neighbours, and it begins
  with the first mood and ends with the last. The join adds no whitespace and no trailing
  comma, and the moods are passed as they are.
\<close>

theorem engine_invoked_with_catalog_and_joined_moods:
  "(let call = \<lparr>args = [CPP_EXECUTABLE env, SONGS_CSV env, join '','' emotions],
                capture_output = True, text_mode = True, timeout = 10\<rparr>
    in (subprocess_run env call = TimeoutExpired \<longrightarrow>
          call_cpp_engine env emotions = Inl (Exception ''C++ engine timeout''))
     \<and> (subprocess_run env call = FileNotFoundError \<longrightarrow>
          call_cpp_engine env emotions =
            Inl (Exception (''C++ executable not found at '' @ CPP_EXECUTABLE env)))
     \<and> (\<forall>out err v. subprocess_run env call = CompletedProcess 0 out err
            \<and> json_loads env out = Parsed v \<longrightarrow>
          call_cpp_engine env emotions = Inr v)
     \<and> (run' call = subprocess_run env call \<longrightarrow>
          call_cpp_engine (env\<lparr>subprocess_run := run'\<rparr>) emotions
            = call_cpp_engine env emotions))
   \<and> join '','' emotions =
       (case emotions of [] \<Rightarrow> [] | m # ms \<Rightarrow> m @ concat (map ((@) '','') ms))
   \<and> length (join '','' emotions) = sum_list (map length emotions) + (length emotions - 1)
   \<and> count_list (join '','' emotions) CHR '','' =
       sum_list (map (\<lambda>m. count_list m CHR '','') emotions) + (length emotions - 1)
   \<and> (emotions \<noteq> [] \<longrightarrow>
        prefix (hd emotions) (join '','' emotions) \<and> suffix (last emotions) (join '','' emotions))"
proof -
  let ?call = "\<lparr>args = [CPP_EXECUTABLE env, SONGS_CSV env, join '','' emotions],
                capture_output = True, text_mode = True, timeout = 10\<rparr>"
  have c: "engine_call env emotions = ?call"
    by (simp add: engine_call_def)
  have 1: "call_cpp_engine env emotions = Inl (Exception ''C++ engine timeout'')"
    if "subprocess_run env ?call = TimeoutExpired"
    using that by (simp add: call_cpp_engine_cases c)
  have 2: "call_cpp_engine env emotions =
            Inl (Exception (''C++ executable not found at '' @ CPP_EXECUTABLE env))"
    if "subprocess_run env ?call = FileNotFoundError"
    using that by (simp add: call_cpp_engine_cases c)
  have 3: "call_cpp_engine env emotions = Inr v"
    if "subprocess_run env ?call = CompletedProcess 0 out err \<and> json_loads env out = Parsed v"
    for out err v
    using that by (simp add: call_cpp_engine_cases c)
  have 4: "call_cpp_engine (env\<lparr>subprocess_run := run'\<rparr>) emotions = call_cpp_engine env emotions"
    if "run' ?call = subprocess_run env ?call"
    using that call_cpp_engine_cong[of run' env emotions] by (simp only: c)
  have 5: "join '','' emotions =
       (case emotions of [] \<Rightarrow> [] | m # ms \<Rightarrow> m @ concat (map ((@) '','') ms))"
    by (rule join_formula)
  have 6: "length (join '','' emotions) = sum_list (map length emotions) + (length emotions - 1)"
    by (simp add: join_length)
  have 7: "count_list (join '','' emotions) CHR '','' =
       sum_list (map (\<lambda>m. count_list m CHR '','') emotions) + (length emotions - 1)"
    by (rule join_count)
  have 8: "prefix (hd emotions) (join '','' emotions) \<and> suffix (last emotions) (join '','' emotions)"
    if "emotions \<noteq> []"
    using that by (simp add: join_prefix join_suffix)
  from 1 2 3 4 5 6 7 8 show ?thesis
    unfolding Let_def by blast
qed

theorem engine_invoked_with_catalog_and_joined_moods_witness:
  "call_cpp_engine
      ((sample_env FileNotFoundError (\<lambda>t. Inr sample_probs))
         \<lparr>subprocess_run :=
            (\<lambda>a. if a = \<lparr>args = [''/srv/app/web/backend/routes/../../../cpp/build/emotion_playlist.exe'',
                                  ''/srv/app/web/backend/routes/../../../data/songs.csv'',
                                  ''excited,happy''],
                          capture_output = True, text_mode = True, timeout = 10\<rparr>
                 then TimeoutExpired else FileNotFoundError)\<rparr>)
      [''excited'', ''happy'']
     = Inl (Exception ''C++ engine timeout'')
   \<and> call_cpp_engine (sample_env FileNotFoundError (\<lambda>t. Inr sample_probs)) [''excited'', ''happy'']
     = Inl (Exception (''C++ executable not found at '' @
             ''/srv/app/web/backend/routes/../../../cpp/build/emotion_playlist.exe''))
   \<and> call_cpp_engine (sample_env (CompletedProcess 0 stdout_one_song []) (\<lambda>t. Inr sample_probs))
        [''excited'', ''happy'']
     = Inr (JObj [(''songs'', JArr [JObj [(''id'', JInt 1)]]), (''count'', JInt 1)])
   \<and> call_cpp_engine
        ((sample_env TimeoutExpired (\<lambda>t. Inr sample_probs))
           \<lparr>subprocess_run :=
              (\<lambda>a. if last (args a) = ''excited,happy'' then TimeoutExpired
                   else FileNotFoundError)\<rparr>)
        [''excited'', ''happy'']
     = call_cpp_engine (sample_env TimeoutExpired (\<lambda>t. Inr sample_probs)) [''excited'', ''happy'']
   \<and> join '','' [''excited'', ''happy''] = ''excited,happy''
   \<and> [''excited'', ''happy''] \<noteq> []
   \<and> prefix ''excited'' ''excited,happy'' \<and> suffix ''happy'' ''excited,happy''
   \<and> count_list ''excited,happy'' CHR '','' = 1"
proof -
  let ?ms = "[''excited'', ''happy'']"
  let ?i = "\<lambda>t::json. Inr sample_probs :: py_exception + rat list"
  let ?exe = "''/srv/app/web/backend/routes/../../../cpp/build/emotion_playlist.exe''"
  let ?csv = "''/srv/app/web/backend/routes/../../../data/songs.csv''"
  let ?call = "\<lparr>args = [?exe, ?csv, ''excited,happy''],
                capture_output = True, text_mode = True, timeout = 10\<rparr>"
  let ?only = "\<lambda>a. if a = ?call then TimeoutExpired else FileNotFoundError"
  let ?last = "\<lambda>a. if last (args a) = ''excited,happy'' then TimeoutExpired else FileNotFoundError"
  let ?e1 = "(sample_env FileNotFoundError ?i)\<lparr>subprocess_run := ?only\<rparr>"
  let ?e2 = "sample_env FileNotFoundError ?i"
  let ?e3 = "sample_env (CompletedProcess 0 stdout_one_song []) ?i"
  let ?e4 = "sample_env TimeoutExpired ?i"
  note t = engine_invoked_with_catalog_and_joined_moods
  have j: "join '','' ?ms = ''excited,happy''" by simp
  have n: "?ms \<noteq> []" by simp
  have a: "call_cpp_engine ?e1 ?ms = Inl (Exception ''C++ engine timeout'')"
    using t[of ?e1 ?ms ?last] by (simp add: sample_env_def Let_def)
  have b: "call_cpp_engine ?e2 ?ms = Inl (Exception (''C++ executable not found at '' @ ?exe))"
    using t[of ?e2 ?ms ?last] by (simp add: sample_env_def Let_def)
  have c: "call_cpp_engine ?e3 ?ms
             = Inr (JObj [(''songs'', JArr [JObj [(''id'', JInt 1)]]), (''count'', JInt 1)])"
    using t[of ?e3 ?ms ?last] by (simp add: sample_env_simps sample_loads_simps Let_def)
  have d: "call_cpp_engine (?e4\<lparr>subprocess_run := ?last\<rparr>) ?ms = call_cpp_engine ?e4 ?ms"
    using t[of ?e4 ?ms ?last] by (simp add: sample_env_simps Let_def)
  have e: "prefix ''excited'' ''excited,happy'' \<and> suffix ''happy'' ''excited,happy''
           \<and> count_list ''excited,happy'' CHR '','' = 1"
    using t[of ?e4 ?ms ?last] n by (simp add: suffix_def Let_def)
  from a b c d e j n show ?thesis by (intro conjI) simp_all
qed

text \<open>
  C5 as stated has the joined string free of surrounding whitespace and of a trailing
  comma for every mood list. The playlist route accepts the two moods \<open>happy\<close> with a
  space on either side and \<open>sad\<close> with a comma after it, since neither is blank, and
  starts the engine with a third argument that begins with a space and ends with a comma.
\<close>

theorem moods_passed_unstripped_counterexample:
  "generate_playlist
      ((sample_env FileNotFoundError (\<lambda>t. Inr sample_probs))
         \<lparr>subprocess_run :=
            (\<lambda>a. if args a = [''/srv/app/web/backend/routes/../../../cpp/build/emotion_playlist.exe'',
                               ''/srv/app/web/backend/routes/../../../data/songs.csv'',
                               '' happy ,sad,'']
                 then CompletedProcess 0 stdout_one_song [] else FileNotFoundError)\<rparr>)
      \<lparr>http_method = POST,
       get_json = Inr (Some \<lparr>emotions_key = Some (JArr [JStr '' happy '', JStr ''sad,''])\<rparr>)\<rparr>
     = (Json (JObj [(''emotions'', JArr [JStr '' happy '', JStr ''sad,'']),
                    (''songs'', JArr [JObj [(''id'', JInt 1)]]),
                    (''count'', JInt 1)]), 200)
   \<and> hd '' happy ,sad,'' = CHR '' ''
   \<and> last '' happy ,sad,'' = CHR '',''"
  by (simp add: generate_playlist_def generate_playlist_try_def call_cpp_engine_cases
        engine_call_def sample_env_def sample_loads_simps strip_def isspace_def)

text \<open>
  C4, as the code has it. Every call of \<open>call_cpp_engine\<close> returns the parsed standard
  output or raises one \<open>Exception\<close> whose message tells the cause: \<open>C++ engine timeout\<close>
  when the timeout expires, the timeout passed to the launcher being 10 seconds, so that a
  process that runs for longer or never exits ends the call with this error whatever it
  would have returned or written; \<open>C++ executable not found at <path>\<close> when the launch
  raises \<open>FileNotFoundError\<close>; on a non-zero exit a message that starts with
  \<open>C++ engine error: \<close> and ends with the captured standard error, whatever the parser
  would do with the output; \<open>Failed to parse C++ output: \<close> followed by the decoder's own
  message when \<open>json.loads\<close> raises \<open>JSONDecodeError\<close> on the output of a zero exit; and
  \<open>C++ engine error: \<close> followed by the exception's text for any other exception, of the
  launch or of \<open>json.loads\<close>. The four message forms are pairwise different.
\<close>

theorem engine_client_outcomes:
  "(subprocess_run env (engine_call env emotions) = TimeoutExpired \<longrightarrow>
      call_cpp_engine env emotions = Inl (Exception ''C++ engine timeout''))
   \<and> timeout (engine_call env emotions) = 10
   \<and> (subprocess_run env = run_with_timeout system
        \<and> system (args (engine_call env emotions)) = Runs None exit_code written complaint \<longrightarrow>
        call_cpp_engine env emotions = Inl (Exception ''C++ engine timeout''))
   \<and> (subprocess_run env = run_with_timeout system
        \<and> system (args (engine_call env emotions)) = Runs (Some seconds) exit_code written complaint
        \<and> 10 < seconds \<longrightarrow>
        call_cpp_engine env emotions = Inl (Exception ''C++ engine timeout''))
   \<and> (subprocess_run env (engine_call env emotions) = FileNotFoundError \<longrightarrow>
      call_cpp_engine env emotions =
        Inl (Exception (''C++ executable not found at '' @ CPP_EXECUTABLE env)))
   \<and> (\<forall>rc out err. subprocess_run env (engine_call env emotions) = CompletedProcess rc out err
          \<and> rc \<noteq> 0 \<longrightarrow>
        (\<exists>detail. call_cpp_engine env emotions = Inl (Exception (''C++ engine error: '' @ detail))
                 \<and> suffix err detail)
        \<and> (\<forall>loads. call_cpp_engine (env\<lparr>json_loads := loads\<rparr>) emotions
                      = call_cpp_engine env emotions))
   \<and> (\<forall>out err m. subprocess_run env (engine_call env emotions) = CompletedProcess 0 out err
          \<and> json_loads env out = JSONDecodeError m \<longrightarrow>
        call_cpp_engine env emotions = Inl (Exception (''Failed to parse C++ output: '' @ m)))
   \<and> (\<forall>out err m. subprocess_run env (engine_call env emotions) = CompletedProcess 0 out err
          \<and> json_loads env out = LoadsRaises m \<longrightarrow>
        call_cpp_engine env emotions = Inl (Exception (''C++ engine error: '' @ m)))
   \<and> (\<forall>out err v. subprocess_run env (engine_call env emotions) = CompletedProcess 0 out err
          \<and> json_loads env out = Parsed v \<longrightarrow>
        call_cpp_engine env emotions = Inr v)
   \<and> (\<forall>m. subprocess_run env (engine_call env emotions) = OtherError m \<longrightarrow>
        call_cpp_engine env emotions = Inl (Exception (''C++ engine error: '' @ m)))
   \<and> (\<forall>path detail m.
         ''C++ engine timeout'' \<noteq> ''C++ executable not found at '' @ path
       \<and> ''C++ engine timeout'' \<noteq> ''C++ engine error: '' @ detail
       \<and> ''C++ engine timeout'' \<noteq> ''Failed to parse C++ output: '' @ m
       \<and> ''C++ executable not found at '' @ path \<noteq> ''C++ engine error: '' @ detail
       \<and> ''C++ executable not found at '' @ path \<noteq> ''Failed to parse C++ output: '' @ m
       \<and> ''C++ engine error: '' @ detail \<noteq> ''Failed to parse C++ output: '' @ m)"
proof (intro conjI allI impI)
  show "call_cpp_engine env emotions = Inl (Exception ''C++ engine timeout'')"
    if "subprocess_run env (engine_call env emotions) = TimeoutExpired"
    using that by (simp add: call_cpp_engine_cases)
  show "timeout (engine_call env emotions) = 10"
    by (simp add: engine_call_def)
  show "call_cpp_engine env emotions = Inl (Exception ''C++ engine timeout'')"
    if "subprocess_run env = run_with_timeout system
        \<and> system (args (engine_call env emotions)) = Runs None exit_code written complaint"
    using that by (simp add: call_cpp_engine_cases run_with_timeout_def)
  show "call_cpp_engine env emotions = Inl (Exception ''C++ engine timeout'')"
    if "subprocess_run env = run_with_timeout system
        \<and> system (args (engine_call env emotions)) = Runs (Some seconds) exit_code written complaint
        \<and> 10 < seconds"
    using that by (simp add: call_cpp_engine_cases run_with_timeout_def engine_call_def)
  show "call_cpp_engine env emotions =
        Inl (Exception (''C++ executable not found at '' @ CPP_EXECUTABLE env))"
    if "subprocess_run env (engine_call env emotions) = FileNotFoundError"
    using that by (simp add: call_cpp_engine_cases)
  show "\<exists>detail. call_cpp_engine env emotions = Inl (Exception (''C++ engine error: '' @ detail))
                 \<and> suffix err detail"
    if "subprocess_run env (engine_call env emotions) = CompletedProcess rc out err \<and> rc \<noteq> 0"
    for rc out err
  proof -
    from that have "call_cpp_engine env emotions =
        Inl (Exception (''C++ engine error: '' @ (''C++ engine error: '' @ err)))"
      by (simp add: call_cpp_engine_cases)
    moreover have "suffix err (''C++ engine error: '' @ err)"
      by (rule suffix_appendI) simp
    ultimately show ?thesis by blast
  qed
  show "call_cpp_engine (env\<lparr>json_loads := loads\<rparr>) emotions = call_cpp_engine env emotions"
    if "subprocess_run env (engine_call env emotions) = CompletedProcess rc out err \<and> rc \<noteq> 0"
    for rc out err loads
    using that by (simp add: call_cpp_engine_cases engine_call_def)
  show "call_cpp_engine env emotions = Inl (Exception (''Failed to parse C++ output: '' @ m))"
    if "subprocess_run env (engine_call env emotions) = CompletedProcess 0 out err
          \<and> json_loads env out = JSONDecodeError m" for out err m
    using that by (simp add: call_cpp_engine_cases)
  show "call_cpp_engine env emotions = Inl (Exception (''C++ engine error: '' @ m))"
    if "subprocess_run env (engine_call env emotions) = CompletedProcess 0 out err
          \<and> json_loads env out = LoadsRaises m" for out err m
    using that by (simp add: call_cpp_engine_cases)
  show "call_cpp_engine env emotions = Inr v"
    if "subprocess_run env (engine_call env emotions) = CompletedProcess 0 out err
          \<and> json_loads env out = Parsed v" for out err v
    using that by (simp add: call_cpp_engine_cases)
  show "call_cpp_engine env emotions = Inl (Exception (''C++ engine error: '' @ m))"
    if "subprocess_run env (engine_call env emotions) = OtherError m" for m
    using that by (simp add: call_cpp_engine_cases)
qed simp_all

theorem engine_client_outcomes_witness:
  "call_cpp_engine (sample_env TimeoutExpired (\<lambda>t. Inr sample_probs)) [''sad'']
     = Inl (Exception ''C++ engine timeout'')
   \<and> call_cpp_engine
        ((sample_env FileNotFoundError (\<lambda>t. Inr sample_probs))
           \<lparr>subprocess_run := run_with_timeout (\<lambda>argv. Runs None 0 stdout_one_song [])\<rparr>)
        [''sad'']
     = Inl (Exception ''C++ engine timeout'')
   \<and> (10 :: rat) < 12
   \<and> call_cpp_engine
        ((sample_env FileNotFoundError (\<lambda>t. Inr sample_probs))
           \<lparr>subprocess_run := run_with_timeout (\<lambda>argv. Runs (Some 12) 0 stdout_one_song [])\<rparr>)
        [''sad'']
     = Inl (Exception ''C++ engine timeout'')
   \<and> call_cpp_engine (sample_env FileNotFoundError (\<lambda>t. Inr sample_probs)) [''sad'']
     = Inl (Exception (''C++ executable not found at '' @
             ''/srv/app/web/backend/routes/../../../cpp/build/emotion_playlist.exe''))
   \<and> (\<exists>detail. call_cpp_engine
          (sample_env (CompletedProcess 2 stdout_one_song ''cannot open catalog'') (\<lambda>t. Inr sample_probs))
          [''sad''] = Inl (Exception (''C++ engine error: '' @ detail))
        \<and> suffix ''cannot open catalog'' detail)
   \<and> call_cpp_engine (sample_env (CompletedProcess 0 ''no songs found'' []) (\<lambda>t. Inr sample_probs))
        [''sad'']
     = Inl (Exception (''Failed to parse C++ output: '' @ ''Expecting value: line 1 column 1 (char 0)''))
   \<and> call_cpp_engine
        ((sample_env (CompletedProcess 0 ''[[[['' []) (\<lambda>t. Inr sample_probs))
           \<lparr>json_loads := (\<lambda>s. LoadsRaises ''maximum recursion depth exceeded'')\<rparr>)
        [''sad'']
     = Inl (Exception (''C++ engine error: '' @ ''maximum recursion depth exceeded''))
   \<and> call_cpp_engine
        (sample_env (CompletedProcess 0 stdout_one_song []) (\<lambda>t. Inr sample_probs))
        [''sad'']
     = Inr (JObj [(''songs'', JArr [JObj [(''id'', JInt 1)]]), (''count'', JInt 1)])
   \<and> call_cpp_engine (sample_env (OtherError ''[Errno 13] Permission denied'') (\<lambda>t. Inr sample_probs))
        [''sad'']
     = Inl (Exception (''C++ engine error: '' @ ''[Errno 13] Permission denied''))"
proof -
  let ?i = "\<lambda>t::json. Inr sample_probs :: py_exception + rat list"
  let ?never = "\<lambda>argv::string list. Runs None 0 stdout_one_song []"
  let ?slow = "\<lambda>argv::string list. Runs (Some 12) 0 stdout_one_song []"
  let ?en = "(sample_env FileNotFoundError ?i)\<lparr>subprocess_run := run_with_timeout ?never\<rparr>"
  let ?es = "(sample_env FileNotFoundError ?i)\<lparr>subprocess_run := run_with_timeout ?slow\<rparr>"
  let ?er = "(sample_env (CompletedProcess 0 ''[[[['' []) ?i)
               \<lparr>json_loads := (\<lambda>s. LoadsRaises ''maximum recursion depth exceeded'')\<rparr>"
  note t = engine_client_outcomes[where system = ?never and seconds = 0
             and exit_code = 0 and written = "[]" and complaint = "[]"]
  have 1: "subprocess_run (sample_env TimeoutExpired ?i)
             (engine_call (sample_env TimeoutExpired ?i) [''sad'']) = TimeoutExpired"
    by (simp add: sample_env_simps)
  have 2: "subprocess_run (sample_env FileNotFoundError ?i)
             (engine_call (sample_env FileNotFoundError ?i) [''sad'']) = FileNotFoundError"
    by (simp add: sample_env_simps)
  have 3: "subprocess_run (sample_env (CompletedProcess 2 stdout_one_song ''cannot open catalog'') ?i)
             (engine_call (sample_env (CompletedProcess 2 stdout_one_song ''cannot open catalog'') ?i)
                [''sad''])
           = CompletedProcess 2 stdout_one_song ''cannot open catalog'' \<and> (2::int) \<noteq> 0"
    by (simp add: sample_env_simps)
  have 4: "subprocess_run (sample_env (CompletedProcess 0 ''no songs found'' []) ?i)
             (engine_call (sample_env (CompletedProcess 0 ''no songs found'' []) ?i) [''sad''])
           = CompletedProcess 0 ''no songs found'' []
         \<and> json_loads (sample_env (CompletedProcess 0 ''no songs found'' []) ?i) ''no songs found''
           = JSONDecodeError ''Expecting value: line 1 column 1 (char 0)''"
    by (simp add: sample_env_simps sample_loads_simps)
  have 5: "subprocess_run (sample_env (CompletedProcess 0 stdout_one_song []) ?i)
             (engine_call (sample_env (CompletedProcess 0 stdout_one_song []) ?i) [''sad''])
           = CompletedProcess 0 stdout_one_song []
         \<and> json_loads (sample_env (CompletedProcess 0 stdout_one_song []) ?i) stdout_one_song
           = Parsed (JObj [(''songs'', JArr [JObj [(''id'', JInt 1)]]), (''count'', JInt 1)])"
    by (simp add: sample_env_simps sample_loads_simps)
  have 6: "subprocess_run (sample_env (OtherError ''[Errno 13] Permission denied'') ?i)
             (engine_call (sample_env (OtherError ''[Errno 13] Permission denied'') ?i) [''sad''])
           = OtherError ''[Errno 13] Permission denied''"
    by (simp add: sample_env_simps)
  have 7: "subprocess_run ?en = run_with_timeout ?never
         \<and> ?never (args (engine_call ?en [''sad''])) = Runs None 0 stdout_one_song []"
    by simp
  have 8: "subprocess_run ?es = run_with_timeout ?slow
         \<and> ?slow (args (engine_call ?es [''sad''])) = Runs (Some 12) 0 stdout_one_song []
         \<and> (10 :: rat) < 12"
    by simp
  have 9: "subprocess_run ?er (engine_call ?er [''sad'']) = CompletedProcess 0 ''[[[['' []
         \<and> json_loads ?er ''[[[['' = LoadsRaises ''maximum recursion depth exceeded''"
    by (simp add: sample_env_def)
  from t[of "sample_env TimeoutExpired ?i" "[''sad'']"] 1
  have a: "call_cpp_engine (sample_env TimeoutExpired ?i) [''sad'']
             = Inl (Exception ''C++ engine timeout'')" by blast
  from t[of "sample_env FileNotFoundError ?i" "[''sad'']"] 2
  have b: "call_cpp_engine (sample_env FileNotFoundError ?i) [''sad'']
     = Inl (Exception (''C++ executable not found at '' @
             ''/srv/app/web/backend/routes/../../../cpp/build/emotion_playlist.exe''))"
    by (simp only: sample_env_simps)
  from t[of "sample_env (CompletedProcess 2 stdout_one_song ''cannot open catalog'') ?i" "[''sad'']"] 3
  have c: "\<exists>detail. call_cpp_engine
          (sample_env (CompletedProcess 2 stdout_one_song ''cannot open catalog'') ?i)
          [''sad''] = Inl (Exception (''C++ engine error: '' @ detail))
        \<and> suffix ''cannot open catalog'' detail" by blast
  from t[of "sample_env (CompletedProcess 0 ''no songs found'' []) ?i" "[''sad'']"] 4
  have d: "call_cpp_engine (sample_env (CompletedProcess 0 ''no songs found'' []) ?i) [''sad'']
     = Inl (Exception (''Failed to parse C++ output: '' @ ''Expecting value: line 1 column 1 (char 0)''))"
    by blast
  from t[of "sample_env (CompletedProcess 0 stdout_one_song []) ?i" "[''sad'']"] 5
  have e: "call_cpp_engine (sample_env (CompletedProcess 0 stdout_one_song []) ?i) [''sad'']
     = Inr (JObj [(''songs'', JArr [JObj [(''id'', JInt 1)]]), (''count'', JInt 1)])"
    by blast
  from t[of "sample_env (OtherError ''[Errno 13] Permission denied'') ?i" "[''sad'']"] 6
  have f: "call_cpp_engine (sample_env (OtherError ''[Errno 13] Permission denied'') ?i) [''sad'']
     = Inl (Exception (''C++ engine error: '' @ ''[Errno 13] Permission denied''))"
    by blast
  from engine_client_outcomes[where env = ?en and emotions = "[''sad'']" and system = ?never
           and seconds = 0 and exit_code = 0 and written = stdout_one_song and complaint = "[]"] 7
  have g: "call_cpp_engine ?en [''sad''] = Inl (Exception ''C++ engine timeout'')" by blast
  from engine_client_outcomes[where env = ?es and emotions = "[''sad'']" and system = ?slow
           and seconds = 12 and exit_code = 0 and written = stdout_one_song and complaint = "[]"] 8
  have h: "call_cpp_engine ?es [''sad''] = Inl (Exception ''C++ engine timeout'')" by blast
  from t[of ?er "[''sad'']"] 9
  have k: "call_cpp_engine ?er [''sad'']
     = Inl (Exception (''C++ engine error: '' @ ''maximum recursion depth exceeded''))" by blast
  have l: "(10 :: rat) < 12" by simp
  from a b c d e f g h k l show ?thesis by (intro conjI)
qed

text \<open>
  C4 as stated has the parse failure carry the raw output and every launch failure reported
  as not found. A zero exit with the output \<open>no songs found\<close> raises a message that does
  not contain that output, and a launch that fails with a permission error raises the same
  form of message as a non-zero exit does, not the not-found one.
\<close>

theorem parse_failure_and_launch_failure_counterexample:
  "call_cpp_engine (sample_env (CompletedProcess 0 ''no songs found'' []) (\<lambda>t. Inr sample_probs))
       [''happy'']
     = Inl (Exception ''Failed to parse C++ output: Expecting value: line 1 column 1 (char 0)'')
   \<and> \<not> sublist ''no songs found''
          ''Failed to parse C++ output: Expecting value: line 1 column 1 (char 0)''
   \<and> call_cpp_engine (sample_env (OtherError ''[Errno 13] Permission denied'') (\<lambda>t. Inr sample_probs))
       [''happy'']
     = Inl (Exception ''C++ engine error: [Errno 13] Permission denied'')
   \<and> call_cpp_engine (sample_env (CompletedProcess 1 [] ''[Errno 13] Permission denied'')
          (\<lambda>t. Inr sample_probs)) [''happy'']
     = Inl (Exception ''C++ engine error: C++ engine error: [Errno 13] Permission denied'')"
proof (intro conjI)
  show "\<not> sublist ''no songs found''
          ''Failed to parse C++ output: Expecting value: line 1 column 1 (char 0)''"
    by code_simp
qed (simp_all add: call_cpp_engine_cases sample_env_def sample_loads_def
       stdout_one_song_def stdout_miscounted_def)

section \<open>Properties of the routes\<close>

lemma classify_emotion_valid_text:
  assumes "http_method req = POST"
    and "get_json req = Inr (Some data)"
    and "text_key data = Some (JStr s)"
    and "strip s \<noteq> []"
  shows "classify_emotion env req =
     (case classify (inference env) (JStr s)
             (case top_k_key data of None \<Rightarrow> 3 | Some k \<Rightarrow> k)
             (case threshold_key data of None \<Rightarrow> default_threshold | Some t \<Rightarrow> t) of
        Inl e \<Rightarrow> internal_server_error e
      | Inr result \<Rightarrow> (Json (jsonify_classification result), 200))"
  using assms
  by (simp add: classify_emotion_def classify_emotion_try_def Let_def split: sum.splits)

lemma strip_feel: "strip ''I feel great'' \<noteq> []"
  by (simp add: strip_def isspace_def)




lemma classify_moods:
  assumes "classify infer txt top_k threshold = Inr c"
  shows "set (simplified_emotions c) \<subseteq> {''happy'', ''sad'', ''excited'', ''neutral''}"
proof -
  from assms obtain probs where "classify_from_probs txt probs top_k threshold = Inr c"
    by (auto simp: classify_def split: sum.splits)
  then obtain kept :: "(rat \<times> nat) list" where
    "simplified_emotions c =
       sorted_list_of_set ((\<lambda>p. simplified (EMOTION_LABELS ! snd p)) ` set kept)"
    by (rule classify_from_probs_Inr)
  then have "set (simplified_emotions c) = (\<lambda>p. simplified (EMOTION_LABELS ! snd p)) ` set kept"
    by simp
  with simplified_range show ?thesis by auto
qed

lemma playlist_emotions_nonempty: "playlist_emotions c \<noteq> []"
  by (simp add: playlist_emotions_def Let_def)

lemma playlist_emotions_set:
  "set (playlist_emotions c) \<subseteq> insert ''neutral'' (set (simplified_emotions c))"
  by (auto simp: playlist_emotions_def Let_def)

lemma generate_full_playlist_cong:
  assumes "\<forall>ms. ms \<noteq> [] \<and> set ms \<subseteq> {''happy'', ''sad'', ''excited'', ''neutral''} \<longrightarrow>
              run' (engine_call env ms) = subprocess_run env (engine_call env ms)"
  shows "generate_full_playlist (env\<lparr>subprocess_run := run'\<rparr>) req = generate_full_playlist env req"
proof -
  have e: "call_cpp_engine (env\<lparr>subprocess_run := run'\<rparr>) (playlist_emotions c)
             = call_cpp_engine env (playlist_emotions c)"
    if "classify (inference env) tx k t = Inr c" for tx k t and c :: "json classification"
  proof (rule call_cpp_engine_cong)
    from classify_moods[OF that] playlist_emotions_set[of c]
    have "set (playlist_emotions c) \<subseteq> {''happy'', ''sad'', ''excited'', ''neutral''}"
      by auto
    with assms playlist_emotions_nonempty[of c]
    show "run' (engine_call env (playlist_emotions c))
            = subprocess_run env (engine_call env (playlist_emotions c))"
      by blast
  qed
  have "generate_full_playlist_try (env\<lparr>subprocess_run := run'\<rparr>) req
          = generate_full_playlist_try env req"
    by (auto simp: generate_full_playlist_try_def Let_def e
             split: sum.splits option.splits)
  then show ?thesis by (simp add: generate_full_playlist_def)
qed

lemma join_moods_nonempty:
  assumes "ms \<noteq> []" and "set ms \<subseteq> {''happy'', ''sad'', ''excited'', ''neutral''}"
  shows "join '','' ms \<noteq> []"
proof -
  from assms have "hd ms \<in> {''happy'', ''sad'', ''excited'', ''neutral''}"
    by (cases ms) auto
  then have "hd ms \<noteq> []" by auto
  with join_prefix[OF assms(1), of "'',''"] show ?thesis by auto
qed

lemma generate_playlist_success:
  assumes "http_method req = POST"
    and "get_json req = Inr (Some data)"
    and "emotions_key data = Some (JArr items)"
    and "items \<noteq> []"
    and "validated_emotions items = Some emotions"
    and "call_cpp_engine env emotions = Inr (JObj kvs)"
    and "map_of kvs ''songs'' = Some songs"
    and "map_of kvs ''count'' = Some count"
  shows "generate_playlist env req =
           (Json (JObj [(''emotions'', JArr items), (''songs'', songs), (''count'', count)]), 200)"
  using assms by (simp add: generate_playlist_def generate_playlist_try_def)

text \<open>
  C8, as the code has it. When the engine exits with zero and its output parses to an
  object with the keys \<open>songs\<close> and \<open>count\<close>, \<open>call_cpp_engine\<close> returns that object and the
  playlist route answers 200 with exactly those two values next to the echoed moods: the
  count of the response is the count the engine printed, so it equals the number of songs
  precisely when the engine's output says so, as for one song with the count 1.
\<close>

theorem playlist_count_and_songs_pass_through:
  assumes "subprocess_run env (engine_call env emotions) = CompletedProcess 0 out err"
    and "json_loads env out = Parsed (JObj kvs)"
    and "map_of kvs ''songs'' = Some songs"
    and "map_of kvs ''count'' = Some count"
    and "http_method req = POST"
    and "get_json req = Inr (Some data)"
    and "emotions_key data = Some (JArr items)"
    and "items \<noteq> []"
    and "validated_emotions items = Some emotions"
  shows "call_cpp_engine env emotions = Inr (JObj kvs)
       \<and> generate_playlist env req =
           (Json (JObj [(''emotions'', JArr items), (''songs'', songs), (''count'', count)]), 200)"
proof -
  from assms(1,2) have e: "call_cpp_engine env emotions = Inr (JObj kvs)"
    by (simp add: call_cpp_engine_cases)
  from generate_playlist_success[OF assms(5-9) e assms(3,4)] e show ?thesis by simp
qed

theorem playlist_count_and_songs_pass_through_witness:
  "generate_playlist (sample_env (CompletedProcess 0 stdout_one_song '''') (\<lambda>t. Inr sample_probs))
     \<lparr>http_method = POST,
      get_json = Inr (Some \<lparr>emotions_key = Some (JArr [JStr ''happy''])\<rparr>)\<rparr>
   = (Json (JObj [(''emotions'', JArr [JStr ''happy'']),
                  (''songs'', JArr [JObj [(''id'', JInt 1)]]),
                  (''count'', JInt 1)]), 200)
   \<and> (1::int) = int (length [JObj [(''id'', JInt 1)]])"
proof -
  let ?env = "sample_env (CompletedProcess 0 stdout_one_song '''') (\<lambda>t. Inr sample_probs)"
  let ?data = "\<lparr>emotions_key = Some (JArr [JStr ''happy''])\<rparr>"
  let ?req = "\<lparr>http_method = POST, get_json = Inr (Some ?data)\<rparr>"
  let ?kvs = "[(''songs'', JArr [JObj [(''id'', JInt 1)]]), (''count'', JInt 1)]"
  have 1: "subprocess_run ?env (engine_call ?env [''happy'']) = CompletedProcess 0 stdout_one_song ''''"
    by (simp add: sample_env_simps)
  have 2: "json_loads ?env stdout_one_song = Parsed (JObj ?kvs)"
    by (simp add: sample_env_simps sample_loads_simps)
  have 3: "map_of ?kvs ''songs'' = Some (JArr [JObj [(''id'', JInt 1)]])" by simp
  have 4: "map_of ?kvs ''count'' = Some (JInt 1)" by simp
  have 5: "http_method ?req = POST" by simp
  have 6: "get_json ?req = Inr (Some ?data)" by simp
  have 7: "emotions_key ?data = Some (JArr [JStr ''happy''])" by simp
  have 8: "[JStr ''happy''] \<noteq> []" by simp
  have 9: "validated_emotions [JStr ''happy''] = Some [''happy'']"
    by (simp add: strip_def isspace_def)
  from playlist_count_and_songs_pass_through[OF 1 2 3 4 5 6 7 8 9]
  show ?thesis by simp
qed

text \<open>
  C8 as stated promises \<open>count == len(songs)\<close> for every zero exit with parseable output.
  For the output with no song and the count 5 the route answers 200 with the count 5.
\<close>

theorem engine_count_not_checked_counterexample:
  "generate_playlist (sample_env (CompletedProcess 0 stdout_miscounted '''') (\<lambda>t. Inr sample_probs))
     \<lparr>http_method = POST,
      get_json = Inr (Some \<lparr>emotions_key = Some (JArr [JStr ''happy''])\<rparr>)\<rparr>
   = (Json (JObj [(''emotions'', JArr [JStr ''happy'']),
                  (''songs'', JArr []),
                  (''count'', JInt 5)]), 200)
   \<and> (5::int) \<noteq> int (length ([] :: json list))"
  by (simp add: generate_playlist_def generate_playlist_try_def call_cpp_engine_cases
        sample_env_simps sample_loads_simps strip_def isspace_def)

text \<open>
  C6, as the code has it. No route and no line of \<open>classify\<close> checks \<open>top_k\<close>. For a valid
  text and a \<open>top_k\<close> that is zero or negative the classify route runs the model first (an
  exception of the model is what the caller gets); with \<open>top_k = 0\<close> it then answers 200
  with no retained entry, no mood, the dominant emotion \<open>neutral\<close> and the confidence
  \<open>0.0\<close>; with a negative \<open>top_k\<close> the top-k selection raises and the answer is the 500
  envelope with that error's text.
\<close>

theorem non_positive_top_k_runs_pipeline:
  assumes "http_method req = POST"
    and "get_json req = Inr (Some data)"
    and "text_key data = Some (JStr s)"
    and "strip s \<noteq> []"
    and "top_k_key data = Some k"
    and "k \<le> 0"
  shows "(\<forall>e. inference env (JStr s) = Inl e \<longrightarrow>
            classify_emotion env req = internal_server_error e)
       \<and> (\<forall>probs. inference env (JStr s) = Inr probs \<longrightarrow>
            (k = 0 \<longrightarrow>
               classify_emotion env req =
                 (Json (jsonify_classification
                    \<lparr>text_value = JStr s, raw_emotions = [], simplified_emotions = [],
                     dominant_emotion = ''neutral'', confidence = 0\<rparr>), 200))
          \<and> (k < 0 \<longrightarrow>
               classify_emotion env req =
                 internal_server_error (RuntimeError ''selected index k out of range'')))"
proof (intro conjI allI impI)
  note r = classify_emotion_valid_text[OF assms(1-4), of env]
  show "classify_emotion env req = internal_server_error e"
    if "inference env (JStr s) = Inl e" for e
    using that by (simp add: r classify_def)
  show "classify_emotion env req =
          (Json (jsonify_classification
             \<lparr>text_value = JStr s, raw_emotions = [], simplified_emotions = [],
              dominant_emotion = ''neutral'', confidence = 0\<rparr>), 200)"
    if "inference env (JStr s) = Inr probs" and "k = 0" for probs
    using that assms(5) by (simp add: r classify_def classify_from_probs_zero)
  show "classify_emotion env req =
          internal_server_error (RuntimeError ''selected index k out of range'')"
    if "inference env (JStr s) = Inr probs" and "k < 0" for probs
    using that assms(5) by (simp add: r classify_def classify_from_probs_negative)
qed

theorem non_positive_top_k_runs_pipeline_witness:
  "classify_emotion (sample_env TimeoutExpired (\<lambda>t. Inl (LibraryError ''model not loaded'')))
     \<lparr>http_method = POST,
      get_json = Inr (Some \<lparr>text_key = Some (JStr ''I feel great''),
                             top_k_key = Some 0, threshold_key = None\<rparr>)\<rparr>
     = internal_server_error (LibraryError ''model not loaded'')
   \<and> classify_emotion (sample_env TimeoutExpired (\<lambda>t. Inr sample_probs))
     \<lparr>http_method = POST,
      get_json = Inr (Some \<lparr>text_key = Some (JStr ''I feel great''),
                             top_k_key = Some 0, threshold_key = None\<rparr>)\<rparr>
     = (Json (jsonify_classification
                \<lparr>text_value = JStr ''I feel great'', raw_emotions = [], simplified_emotions = [],
                 dominant_emotion = ''neutral'', confidence = 0\<rparr>), 200)
   \<and> classify_emotion (sample_env TimeoutExpired (\<lambda>t. Inr sample_probs))
     \<lparr>http_method = POST,
      get_json = Inr (Some \<lparr>text_key = Some (JStr ''I feel great''),
                             top_k_key = Some (- 2), threshold_key = None\<rparr>)\<rparr>
     = internal_server_error (RuntimeError ''selected index k out of range'')"
proof -
  let ?d0 = "\<lparr>text_key = Some (JStr ''I feel great''), top_k_key = Some 0, threshold_key = None\<rparr>"
  let ?d2 = "\<lparr>text_key = Some (JStr ''I feel great''), top_k_key = Some (- 2), threshold_key = None\<rparr>"
  let ?r0 = "\<lparr>http_method = POST, get_json = Inr (Some ?d0)\<rparr>"
  let ?r2 = "\<lparr>http_method = POST, get_json = Inr (Some ?d2)\<rparr>"
  let ?bad = "sample_env TimeoutExpired (\<lambda>t. Inl (LibraryError ''model not loaded''))"
  let ?ok = "sample_env TimeoutExpired (\<lambda>t. Inr sample_probs)"
  have a: "classify_emotion ?bad ?r0 = internal_server_error (LibraryError ''model not loaded'')"
    using non_positive_top_k_runs_pipeline[of ?r0 ?d0 "''I feel great''" 0 ?bad] strip_feel
    by (simp add: sample_env_simps)
  have b: "classify_emotion ?ok ?r0 =
      (Json (jsonify_classification
                \<lparr>text_value = JStr ''I feel great'', raw_emotions = [], simplified_emotions = [],
                 dominant_emotion = ''neutral'', confidence = 0\<rparr>), 200)"
    using non_positive_top_k_runs_pipeline[of ?r0 ?d0 "''I feel great''" 0 ?ok] strip_feel
    by (simp add: sample_env_simps)
  have c: "classify_emotion ?ok ?r2 =
      internal_server_error (RuntimeError ''selected index k out of range'')"
    using non_positive_top_k_runs_pipeline[of ?r2 ?d2 "''I feel great''" "- 2" ?ok] strip_feel
    by (simp add: sample_env_simps)
  from a b c show ?thesis by (intro conjI)
qed

text \<open>
  C6 as stated has a request with \<open>top_k <= 0\<close> fail as bad input. With \<open>top_k = 0\<close> the
  classify route answers 200 with an empty result.
\<close>

theorem top_k_zero_answers_ok_counterexample:
  "classify_emotion (sample_env TimeoutExpired (\<lambda>t. Inr sample_probs))
     \<lparr>http_method = POST,
      get_json = Inr (Some \<lparr>text_key = Some (JStr ''I feel great''),
                             top_k_key = Some 0, threshold_key = None\<rparr>)\<rparr>
   = (Json (JObj [(''text'', JStr ''I feel great''),
                  (''raw_emotions'', JArr []),
                  (''simplified_emotions'', JArr []),
                  (''dominant_emotion'', JStr ''neutral''),
                  (''confidence'', JNum 0)]), 200)"
  by (simp add: classify_emotion_def classify_emotion_try_def classify_def strip_feel
        sample_env_simps classify_from_probs_zero jsonify_classification_def
        classification_fields_def)




text \<open>
  C3. \<open>classify\<close> returns as moods the sorted list of the set of moods of its retained
  labels and nothing else, so no retained label means the empty list, never \<open>[neutral]\<close>.
  The full pipeline hands to the engine \<open>[neutral]\<close> when that list is empty and the list
  itself otherwise, which is never empty; its answer is the same for any two launchers
  that agree on the invocations built from non-empty lists of the four moods, so the
  engine is only ever started with such a list.
\<close>

theorem aggregation_keeps_moods_pipeline_substitutes_neutral:
  "(\<forall>r. classify_from_probs txt probs top_k threshold = Inr r \<longrightarrow>
       simplified_emotions r = sorted_list_of_set (simplified ` emotion ` set (raw_emotions r))
     \<and> (raw_emotions r = [] \<longrightarrow> simplified_emotions r = []))
   \<and> playlist_emotions c =
       (if simplified_emotions c = [] then [''neutral''] else simplified_emotions c)
   \<and> playlist_emotions c \<noteq> []
   \<and> ((\<forall>ms. ms \<noteq> [] \<and> set ms \<subseteq> {''happy'', ''sad'', ''excited'', ''neutral''} \<longrightarrow>
            run' (engine_call env ms) = subprocess_run env (engine_call env ms)) \<longrightarrow>
        generate_full_playlist (env\<lparr>subprocess_run := run'\<rparr>) req
          = generate_full_playlist env req)"
proof (intro conjI allI impI)
  fix r assume "classify_from_probs txt probs top_k threshold = Inr r"
  then obtain kept :: "(rat \<times> nat) list" where
    raw: "raw_emotions r =
       map (\<lambda>p. \<lparr>emotion = EMOTION_LABELS ! snd p, score = round4 (fst p)\<rparr>) kept"
    and simp: "simplified_emotions r =
       sorted_list_of_set ((\<lambda>p. simplified (EMOTION_LABELS ! snd p)) ` set kept)"
    by (rule classify_from_probs_Inr)
  have "simplified ` emotion ` set (raw_emotions r)
          = (\<lambda>p. simplified (EMOTION_LABELS ! snd p)) ` set kept"
    by (simp add: raw image_image)
  with simp show "simplified_emotions r
          = sorted_list_of_set (simplified ` emotion ` set (raw_emotions r))"
    by simp
  then show "simplified_emotions r = []" if "raw_emotions r = []"
    using that by simp
next
  show "playlist_emotions c =
       (if simplified_emotions c = [] then [''neutral''] else simplified_emotions c)"
    by (simp add: playlist_emotions_def Let_def)
  show "playlist_emotions c \<noteq> []" by (rule playlist_emotions_nonempty)
next
  assume "\<forall>ms. ms \<noteq> [] \<and> set ms \<subseteq> {''happy'', ''sad'', ''excited'', ''neutral''} \<longrightarrow>
            run' (engine_call env ms) = subprocess_run env (engine_call env ms)"
  then show "generate_full_playlist (env\<lparr>subprocess_run := run'\<rparr>) req
          = generate_full_playlist env req"
    by (rule generate_full_playlist_cong)
qed

theorem aggregation_keeps_moods_pipeline_substitutes_neutral_witness:
  "classify_from_probs (JStr ''meh'') [4/5, 3/20, 1/20] 3 (9/10) =
     Inr \<lparr>text_value = JStr ''meh'', raw_emotions = [], simplified_emotions = [],
          dominant_emotion = ''neutral'', confidence = 0\<rparr>
   \<and> generate_full_playlist
       ((sample_env (CompletedProcess 0 stdout_one_song '''') (\<lambda>t. Inr [4/5, 3/20, 1/20]))
          \<lparr>subprocess_run :=
             (\<lambda>a. if last (args a) = '''' then FileNotFoundError
                  else CompletedProcess 0 stdout_one_song '''')\<rparr>)
       \<lparr>http_method = POST,
        get_json = Inr (Some \<lparr>text_key = Some (JStr ''meh''), top_k_key = None,
                               threshold_key = Some (9/10)\<rparr>)\<rparr>
     = (Json (JObj
          [(''text'', JStr ''meh''),
           (''classification'',
              JObj [(''raw_emotions'', JArr []),
                    (''simplified_emotions'', JArr []),
                    (''dominant_emotion'', JStr ''neutral''),
                    (''confidence'', JNum 0)]),
           (''playlist'',
              JObj [(''emotions'', JArr [JStr ''neutral'']),
                    (''songs'', JArr [JObj [(''id'', JInt 1)]]),
                    (''count'', JInt 1)])]), 200)"
proof -
  let ?P = "[4/5, 3/20, 1/20 :: rat]"
  let ?R = "\<lparr>text_value = JStr ''meh'', raw_emotions = [], simplified_emotions = [],
          dominant_emotion = ''neutral'', confidence = 0\<rparr>"
  let ?env = "sample_env (CompletedProcess 0 stdout_one_song '''') (\<lambda>t. Inr ?P)"
  let ?run = "\<lambda>a. if last (args a) = '''' then FileNotFoundError
                  else CompletedProcess 0 stdout_one_song ''''"
  let ?req = "\<lparr>http_method = POST,
        get_json = Inr (Some \<lparr>text_key = Some (JStr ''meh''), top_k_key = None,
                               threshold_key = Some (9/10)\<rparr>)\<rparr>"
  note t = aggregation_keeps_moods_pipeline_substitutes_neutral
             [of "JStr ''meh''" ?P 3 "9/10" ?R ?run ?env ?req]
  have a: "classify_from_probs (JStr ''meh'') ?P 3 (9/10) = Inr ?R" by code_simp
  have b: "raw_emotions ?R = []" by simp
  have c: "\<forall>ms. ms \<noteq> [] \<and> set ms \<subseteq> {''happy'', ''sad'', ''excited'', ''neutral''} \<longrightarrow>
            ?run (engine_call ?env ms) = subprocess_run ?env (engine_call ?env ms)"
    using join_moods_nonempty by (simp add: engine_call_def sample_env_simps)
  from t a b have d: "playlist_emotions ?R = [''neutral'']" by simp
  from t c have e: "generate_full_playlist (?env\<lparr>subprocess_run := ?run\<rparr>) ?req
                      = generate_full_playlist ?env ?req" by blast
  have "generate_full_playlist ?env ?req
     = (Json (JObj
          [(''text'', JStr ''meh''),
           (''classification'',
              JObj [(''raw_emotions'', JArr []),
                    (''simplified_emotions'', JArr []),
                    (''dominant_emotion'', JStr ''neutral''),
                    (''confidence'', JNum 0)]),
           (''playlist'',
              JObj [(''emotions'', JArr [JStr ''neutral'']),
                    (''songs'', JArr [JObj [(''id'', JInt 1)]]),
                    (''count'', JInt 1)])]), 200)"
    by (simp add: generate_full_playlist_def generate_full_playlist_try_def classify_def a d
          call_cpp_engine_cases sample_env_simps sample_loads_simps classification_fields_def)
  with a e show ?thesis by simp
qed

end
